theory Spec2Isabelle
  imports Main
begin

section \<open>Companies House scraper: scrape, parse, de-duplicate, upsert\<close>

text \<open>
  The repository holds three variants of one scraper under
  \<^verbatim>\<open>src/tools/companies-house-scraper\<close>:
  \<^item> \<^verbatim>\<open>db_scraper_fixed.py\<close> (class \<^verbatim>\<open>CompaniesHouseDBScraper\<close>, "Fixed version"):
    parser, PostgreSQL upsert and driver. Its functions keep their names here:
    \<open>parse_company_result\<close>, \<open>search_companies\<close>, \<open>save_company_to_db\<close>,
    \<open>scrape_and_save\<close>.
  \<^item> \<^verbatim>\<open>simple_scraper.py\<close> (class \<^verbatim>\<open>SimpleCompaniesHouseScraper\<close>): parser and an
    in-memory driver with the set \<^verbatim>\<open>seen_companies\<close>. Its functions carry the prefix
    \<open>simple_\<close>, except \<open>scrape_companies_by_sector\<close>.
  \<^item> \<^verbatim>\<open>db_scraper.py\<close>: the predecessor of the fixed version; of it only
    \<^verbatim>\<open>save_company_to_db\<close> is embedded (\<open>save_company_to_db_db_scraper\<close>).
\<close>

subsection \<open>Python strings\<close>

text \<open>
  A \<^verbatim>\<open>str\<close> is a \<open>string\<close>. Texts are taken to be ASCII: the classes \<^verbatim>\<open>\d\<close> and
  \<^verbatim>\<open>\w\<close> and \<^verbatim>\<open>str.strip\<close> are modelled on ASCII characters only.
\<close>

text \<open>\<^verbatim>\<open>s.startswith(p)\<close>\<close>

definition startswith :: "string \<Rightarrow> string \<Rightarrow> bool" where
  "startswith s p = (take (length p) s = p)"

text \<open>\<^verbatim>\<open>p in s\<close> for strings: \<open>p\<close> occurs in \<open>s\<close> as a contiguous substring.\<close>

fun str_in :: "string \<Rightarrow> string \<Rightarrow> bool" where
  "str_in p [] = (p = [])"
| "str_in p (c # cs) = (startswith (c # cs) p \<or> str_in p cs)"

definition whitespace :: "char list" where
  "whitespace = [CHR '' '', CHR 0x09, CHR 0x0A, CHR 0x0B, CHR 0x0C, CHR 0x0D,
                 CHR 0x1C, CHR 0x1D, CHR 0x1E, CHR 0x1F]"

text \<open>\<^verbatim>\<open>s.strip()\<close>\<close>

definition strip :: "string \<Rightarrow> string" where
  "strip s = rev (dropWhile (\<lambda>c. c \<in> set whitespace) (rev (dropWhile (\<lambda>c. c \<in> set whitespace) s)))"

definition lowercase :: "char list" where
  "lowercase = ''abcdefghijklmnopqrstuvwxyz''"

definition uppercase :: "char list" where
  "uppercase = ''ABCDEFGHIJKLMNOPQRSTUVWXYZ''"

definition digits :: "char list" where
  "digits = ''0123456789''"

text \<open>\<^verbatim>\<open>\w\<close>\<close>

definition word_chars :: "char list" where
  "word_chars = lowercase @ uppercase @ digits @ ''_''"

text \<open>\<^verbatim>\<open>s.upper()\<close>\<close>

definition upper_char :: "char \<Rightarrow> char" where
  "upper_char c = (case map_of (zip lowercase uppercase) c of Some u \<Rightarrow> u | None \<Rightarrow> c)"

definition upper :: "string \<Rightarrow> string" where
  "upper s = map upper_char s"

subsection \<open>The regular expressions of the scrapers\<close>

text \<open>
  Every pattern of the source is a sequence of literals and of greedy repetitions of a
  character class. \<open>Rep cls lo hi\<close> is \<^verbatim>\<open>[cls]{lo,hi}\<close>; \<open>hi = None\<close> is unbounded.
  \<open>re_match\<close> is the backtracking matcher of Python's \<^verbatim>\<open>re\<close> anchored at the start
  of the string: a repetition first takes as many characters as it can and gives them
  back one at a time until the rest of the pattern matches. The result is the matched
  text (\<^verbatim>\<open>group(0)\<close>). \<open>re_search\<close> is \<^verbatim>\<open>re.search\<close>: the leftmost start wins.
\<close>

datatype re_item = Lit string | Rep "char list" nat "nat option"

fun first_some :: "'a option list \<Rightarrow> 'a option" where
  "first_some [] = None"
| "first_some (None # xs) = first_some xs"
| "first_some (Some x # xs) = Some x"

fun re_match :: "re_item list \<Rightarrow> string \<Rightarrow> string option" where
  "re_match [] s = Some []"
| "re_match (Lit l # r) s =
     (if startswith s l then map_option ((@) l) (re_match r (drop (length l) s)) else None)"
| "re_match (Rep cls lo hi # r) s =
     (let run = length (takeWhile (\<lambda>c. c \<in> set cls) s);
          top = (case hi of None \<Rightarrow> run | Some h \<Rightarrow> min h run)
      in first_some (map (\<lambda>k. map_option ((@) (take k s)) (re_match r (drop k s)))
                         (rev [lo..<Suc top])))"

fun re_search :: "re_item list \<Rightarrow> string \<Rightarrow> string option" where
  "re_search p [] = re_match p []"
| "re_search p (c # cs) =
     (case re_match p (c # cs) of Some m \<Rightarrow> Some m | None \<Rightarrow> re_search p cs)"

text \<open>\<^verbatim>\<open>r'/company/([A-Z0-9]+)'\<close>; \<^verbatim>\<open>group(1)\<close> is the match without the literal.\<close>

definition company_number_re :: "re_item list" where
  "company_number_re = [Lit ''/company/'', Rep (uppercase @ digits) 1 None]"

definition company_number_group1 :: "string \<Rightarrow> string" where
  "company_number_group1 m = drop (length ''/company/'') m"

text \<open>\<^verbatim>\<open>r'Incorporated on (\d{1,2} \w+ \d{4})'\<close>\<close>

definition incorporated_re :: "re_item list" where
  "incorporated_re = [Lit ''Incorporated on '', Rep digits 1 (Some 2), Lit '' '',
                      Rep word_chars 1 None, Lit '' '', Rep digits 4 (Some 4)]"

definition incorporated_group1 :: "string \<Rightarrow> string" where
  "incorporated_group1 m = drop (length ''Incorporated on '') m"

text \<open>\<^verbatim>\<open>r'(\d{8}|\d{7}[A-Z]{2})'\<close>: at each start the first alternative is tried first.\<close>

fun number_in_text_search :: "string \<Rightarrow> string option" where
  "number_in_text_search [] = None"
| "number_in_text_search (c # cs) =
     (case first_some [re_match [Rep digits 8 (Some 8)] (c # cs),
                       re_match [Rep digits 7 (Some 7), Rep uppercase 2 (Some 2)] (c # cs)] of
        Some m \<Rightarrow> Some m
      | None \<Rightarrow> number_in_text_search cs)"

text \<open>\<^verbatim>\<open>r'[A-Z]{1,2}\d[A-Z\d]? ?\d[A-Z]{2}'\<close>\<close>

definition postal_re :: "re_item list" where
  "postal_re = [Rep uppercase 1 (Some 2), Rep digits 1 (Some 1),
                Rep (uppercase @ digits) 0 (Some 1), Rep '' '' 0 (Some 1),
                Rep digits 1 (Some 1), Rep uppercase 2 (Some 2)]"

subsection \<open>BeautifulSoup elements\<close>

text \<open>
  A parsed document is a tree of tags and strings. \<open>classes\<close> is the multi-valued
  \<^verbatim>\<open>class\<close> attribute, \<open>attrs\<close> the other attributes. \<open>Text\<close> is a
  \<^verbatim>\<open>NavigableString\<close>.
\<close>

datatype node =
    Text string
  | Tag (tag_name: string) (classes: "string list") (attrs: "(string \<times> string) list")
        (children: "node list")

text \<open>All nodes below a tag, in document order.\<close>

fun descendants :: "node \<Rightarrow> node list" where
  "descendants (Text s) = []"
| "descendants (Tag n cs as ch) = concat (map (\<lambda>c. c # descendants c) ch)"

fun is_tag :: "string \<Rightarrow> node \<Rightarrow> bool" where
  "is_tag n (Text s) = False"
| "is_tag n (Tag m cs as ch) = (m = n)"

fun has_class :: "string \<Rightarrow> node \<Rightarrow> bool" where
  "has_class c (Text s) = False"
| "has_class c (Tag m cs as ch) = (c \<in> set cs)"

text \<open>\<^verbatim>\<open>el.find_all(name)\<close> and \<^verbatim>\<open>el.find_all(name, class_=c)\<close>\<close>

definition find_all :: "string \<Rightarrow> node \<Rightarrow> node list" where
  "find_all n el = filter (is_tag n) (descendants el)"

definition find_all_class :: "string \<Rightarrow> string \<Rightarrow> node \<Rightarrow> node list" where
  "find_all_class n c el = filter (\<lambda>x. is_tag n x \<and> has_class c x) (descendants el)"

text \<open>\<^verbatim>\<open>el.find(name)\<close> and \<^verbatim>\<open>el.find(name, class_=c)\<close>: the first hit or \<^verbatim>\<open>None\<close>.\<close>

definition find_tag :: "string \<Rightarrow> node \<Rightarrow> node option" where
  "find_tag n el = (case find_all n el of [] \<Rightarrow> None | x # _ \<Rightarrow> Some x)"

definition find_tag_class :: "string \<Rightarrow> string \<Rightarrow> node \<Rightarrow> node option" where
  "find_tag_class n c el = (case find_all_class n c el of [] \<Rightarrow> None | x # _ \<Rightarrow> Some x)"

text \<open>\<^verbatim>\<open>el.text\<close>: the strings below the element, concatenated.\<close>

fun get_text :: "node \<Rightarrow> string" where
  "get_text (Text s) = s"
| "get_text (Tag n cs as ch) = concat (map get_text ch)"

text \<open>\<^verbatim>\<open>el.get(key, default)\<close>, for a tag \<open>el\<close>\<close>

definition get_attr :: "node \<Rightarrow> string \<Rightarrow> string \<Rightarrow> string" where
  "get_attr el k d = (case map_of (attrs el) k of Some v \<Rightarrow> v | None \<Rightarrow> d)"

subsection \<open>Candidates\<close>

text \<open>
  A candidate is the \<^verbatim>\<open>dict\<close> that the parsers build. The keys that every parser
  sets are plain fields; a key that may be missing is an \<open>option\<close>, and
  \<^verbatim>\<open>company.get(key)\<close> is the field (\<open>None\<close> is Python's \<^verbatim>\<open>None\<close>).
  \<^verbatim>\<open>date_of_creation\<close> is a \<^verbatim>\<open>datetime.date\<close> in \<^verbatim>\<open>db_scraper_fixed.py\<close> and the
  matched string in \<^verbatim>\<open>simple_scraper.py\<close>. A time stamp is a reading of a clock.
\<close>

type_synonym timestamp = nat

type_synonym date = "nat \<times> nat \<times> nat"

datatype date_value = Date_obj date | Date_str string

record company =
  company_name :: string
  company_number :: string
  company_url :: string
  company_status :: "string option"
  scraped_at :: timestamp
  date_of_creation :: "date_value option"
  company_type :: "string option"
  address :: "string option"
  postal_code :: "string option"
  sector_keyword :: "string option"

datatype py_exception = AttributeError | TypeError | DatabaseError | InterfaceError

definition base_url :: string where
  "base_url = ''https://find-and-update.company-information.service.gov.uk''"

subsection \<open>\<^verbatim>\<open>db_scraper_fixed.py\<close>: \<^verbatim>\<open>parse_company_result\<close>\<close>

text \<open>Lines 140 to 147: the type is read off the company name.\<close>

definition company_type_from_name :: "string \<Rightarrow> company \<Rightarrow> company" where
  "company_type_from_name name d =
     (if str_in ''LIMITED'' (upper name) then
        (if str_in ''PLC'' (upper name) then d\<lparr>company_type := Some ''plc''\<rparr>
         else if str_in ''LLP'' (upper name) then d\<lparr>company_type := Some ''llp''\<rparr>
         else d\<lparr>company_type := Some ''ltd''\<rparr>)
      else d)"

text \<open>
  Lines 124 to 155, the body of the loop after the dissolved check, for one paragraph
  text. \<open>strptime\<close> is \<^verbatim>\<open>datetime.strptime(_, '%d %B %Y')\<close> followed by
  \<^verbatim>\<open>.date()\<close>; \<open>None\<close> is its \<^verbatim>\<open>ValueError\<close>, which line 131 swallows.
\<close>

definition parse_detail :: "(string \<Rightarrow> date option) \<Rightarrow> string \<Rightarrow> string \<Rightarrow> company \<Rightarrow> company" where
  "parse_detail strptime name text d =
     (let d1 = (case re_search incorporated_re text of
                  None \<Rightarrow> d
                | Some m \<Rightarrow>
                    (case strptime (incorporated_group1 m) of
                       None \<Rightarrow> d
                     | Some date_obj \<Rightarrow> d\<lparr>date_of_creation := Some (Date_obj date_obj)\<rparr>));
          d2 = (if company_number d1 = [] then
                  (case number_in_text_search text of
                     None \<Rightarrow> d1
                   | Some m \<Rightarrow> d1\<lparr>company_number := m\<rparr>)
                else d1);
          d3 = company_type_from_name name d2
      in if str_in '','' text \<and> length text > 20 \<and> \<not> startswith text ''Matching'' then
           (case re_search postal_re text of
              None \<Rightarrow> d3\<lparr>address := Some text\<rparr>
            | Some m \<Rightarrow> d3\<lparr>address := Some text, postal_code := Some m\<rparr>)
         else d3)"

text \<open>Line 121: \<^verbatim>\<open>'Dissolved' in text or 'dissolved' in text\<close>\<close>

definition dissolved_marker :: "string \<Rightarrow> bool" where
  "dissolved_marker text = (str_in ''Dissolved'' text \<or> str_in ''dissolved'' text)"

text \<open>Lines 117 to 157: the loop over the paragraphs; \<open>None\<close> is \<^verbatim>\<open>return None\<close>.\<close>

fun parse_details :: "(string \<Rightarrow> date option) \<Rightarrow> string \<Rightarrow> node list \<Rightarrow> company \<Rightarrow> company option" where
  "parse_details strptime name [] d = Some d"
| "parse_details strptime name (detail # details) d =
     (let text = strip (get_text detail)
      in if dissolved_marker text then None
         else parse_details strptime name details (parse_detail strptime name text d))"

text \<open>
  Lines 86 to 157, the body of the \<^verbatim>\<open>try\<close>. \<open>Inl\<close> is an exception raised inside
  it. A tag raises nowhere. A result element that is a string and not a tag has
  \<^verbatim>\<open>str.find\<close> for \<^verbatim>\<open>find\<close>: it returns an index, which is false only when it is 0,
  and \<^verbatim>\<open>title_elem.find('a')\<close> on any other index raises \<^verbatim>\<open>AttributeError\<close>.
\<close>

fun parse_company_result_try ::
  "(string \<Rightarrow> date option) \<Rightarrow> timestamp \<Rightarrow> node \<Rightarrow> py_exception + company option" where
  "parse_company_result_try strptime now (Text s) =
     (if startswith s ''h3'' then Inr None else Inl AttributeError)"
| "parse_company_result_try strptime now (Tag n cs as ch) =
     (case find_tag ''h3'' (Tag n cs as ch) of
        None \<Rightarrow> Inr None
      | Some title_elem \<Rightarrow>
          (case find_tag ''a'' title_elem of
             None \<Rightarrow> Inr None
           | Some company_link \<Rightarrow>
               (let name = strip (get_text company_link);
                    url = get_attr company_link ''href'' [];
                    number = (case re_search company_number_re url of
                                Some m \<Rightarrow> company_number_group1 m
                              | None \<Rightarrow> [])
                in if number = [] then Inr None
                   else Inr (parse_details strptime name (find_all ''p'' (Tag n cs as ch))
                          \<lparr>company_name = name, company_number = number,
                           company_url = base_url @ url, company_status = Some ''active'',
                           scraped_at = now, date_of_creation = None, company_type = None,
                           address = None, postal_code = None, sector_keyword = None\<rparr>))))"

text \<open>
  Lines 83 to 161: the \<^verbatim>\<open>except Exception\<close> of line 159 logs and returns \<^verbatim>\<open>None\<close>.
  \<open>Inl\<close> would be an exception that reaches the caller.
\<close>

definition parse_company_result ::
  "(string \<Rightarrow> date option) \<Rightarrow> timestamp \<Rightarrow> node \<Rightarrow> py_exception + company option" where
  "parse_company_result strptime now result_element =
     (case parse_company_result_try strptime now result_element of
        Inl e \<Rightarrow> Inr None
      | Inr r \<Rightarrow> Inr r)"

subsection \<open>\<^verbatim>\<open>simple_scraper.py\<close>: \<^verbatim>\<open>parse_company_result\<close>\<close>

text \<open>Lines 121 to 127: the type is read off the paragraph text.\<close>

definition company_type_from_text :: "string \<Rightarrow> company \<Rightarrow> company" where
  "company_type_from_text text d =
     (if str_in ''Private limited Company'' text then d\<lparr>company_type := Some ''ltd''\<rparr>
      else if str_in ''Public limited Company'' text then d\<lparr>company_type := Some ''plc''\<rparr>
      else if str_in ''Limited liability partnership'' text then d\<lparr>company_type := Some ''llp''\<rparr>
      else d)"

text \<open>Lines 121 to 137, the body of the loop after the status check.\<close>

definition simple_parse_detail :: "node \<Rightarrow> string \<Rightarrow> company \<Rightarrow> company" where
  "simple_parse_detail detail text d =
     (let d1 = company_type_from_text text d;
          d2 = (case find_tag_class ''span'' ''address'' detail of
                  None \<Rightarrow> d1
                | Some span \<Rightarrow> d1\<lparr>address := Some (strip (get_text detail))\<rparr>)
      in case re_search incorporated_re text of
           None \<Rightarrow> d2
         | Some m \<Rightarrow> d2\<lparr>date_of_creation := Some (Date_str (incorporated_group1 m))\<rparr>)"

text \<open>Lines 111 to 137: the loop; the \<^verbatim>\<open>continue\<close> of line 119 skips the rest of the body.\<close>

fun simple_parse_details :: "node list \<Rightarrow> company \<Rightarrow> company" where
  "simple_parse_details [] d = d"
| "simple_parse_details (detail # details) d =
     (let text = strip (get_text detail)
      in if str_in ''Active'' text then
           simple_parse_details details
             (simple_parse_detail detail text (d\<lparr>company_status := Some ''active''\<rparr>))
         else if str_in ''Dissolved'' text then
           simple_parse_details details (d\<lparr>company_status := Some ''dissolved''\<rparr>)
         else simple_parse_details details (simple_parse_detail detail text d))"

text \<open>
  Lines 84 to 143, the body of the \<^verbatim>\<open>try\<close>. On a string, \<^verbatim>\<open>str.find\<close> takes no
  keyword \<^verbatim>\<open>class_\<close> and raises \<^verbatim>\<open>TypeError\<close>.
\<close>

fun simple_parse_company_result_try :: "timestamp \<Rightarrow> node \<Rightarrow> py_exception + company option" where
  "simple_parse_company_result_try now (Text s) = Inl TypeError"
| "simple_parse_company_result_try now (Tag n cs as ch) =
     (case find_tag_class ''h3'' ''heading-medium'' (Tag n cs as ch) of
        None \<Rightarrow> Inr None
      | Some title_elem \<Rightarrow>
          (case find_tag ''a'' title_elem of
             None \<Rightarrow> Inr None
           | Some company_link \<Rightarrow>
               (let name = strip (get_text company_link);
                    url = get_attr company_link ''href'' [];
                    number = (case re_search company_number_re url of
                                Some m \<Rightarrow> company_number_group1 m
                              | None \<Rightarrow> []);
                    d = simple_parse_details (find_all ''p'' (Tag n cs as ch))
                          \<lparr>company_name = name, company_number = number,
                           company_url = base_url @ url, company_status = None,
                           scraped_at = now, date_of_creation = None, company_type = None,
                           address = None, postal_code = None, sector_keyword = None\<rparr>
                in if company_status d = Some ''active'' then Inr (Some d) else Inr None)))"

definition simple_parse_company_result :: "timestamp \<Rightarrow> node \<Rightarrow> py_exception + company option" where
  "simple_parse_company_result now result_element =
     (case simple_parse_company_result_try now result_element of
        Inl e \<Rightarrow> Inr None
      | Inr r \<Rightarrow> Inr r)"

subsection \<open>The world outside the program\<close>

text \<open>
  \<^item> \<open>fetch query page\<close> is the document that \<^verbatim>\<open>session.get\<close>, \<^verbatim>\<open>raise_for_status\<close>
    and \<^verbatim>\<open>BeautifulSoup\<close> produce for one request; \<open>None\<close> when one of them raises.
  \<^item> \<open>clock query page i\<close> is \<^verbatim>\<open>datetime.now()\<close> while result \<open>i\<close> of that page is parsed.
  \<^item> \<open>strptime\<close> is as above.
  \<^item> \<open>db_fault k\<close> says what goes wrong in the database during the call number \<open>k\<close>
    (from 0) of \<^verbatim>\<open>save_company_to_db\<close> in a run, and \<open>db_now k\<close> is the server's
    \<^verbatim>\<open>CURRENT_TIMESTAMP\<close> in that call.
\<close>

datatype fault = No_fault | Statement_fault | Connection_fault

record env =
  fetch :: "string \<Rightarrow> int \<Rightarrow> node option"
  clock :: "string \<Rightarrow> int \<Rightarrow> nat \<Rightarrow> timestamp"
  strptime :: "string \<Rightarrow> date option"
  db_fault :: "nat \<Rightarrow> fault"
  db_now :: "nat \<Rightarrow> timestamp"

subsection \<open>\<^verbatim>\<open>search_companies\<close>\<close>

text \<open>
  \<^verbatim>\<open>db_scraper_fixed.py\<close> lines 72 to 75: the loop over the results, from result
  number \<open>i\<close>. An exception out of the parser would leave the loop.
\<close>

fun parse_results ::
  "(nat \<Rightarrow> node \<Rightarrow> py_exception + company option) \<Rightarrow> nat \<Rightarrow> node list \<Rightarrow> py_exception + company list" where
  "parse_results parse i [] = Inr []"
| "parse_results parse i (result # results) =
     (case parse i result of
        Inl e \<Rightarrow> Inl e
      | Inr company_data \<Rightarrow>
          (case parse_results parse (Suc i) results of
             Inl e \<Rightarrow> Inl e
           | Inr companies \<Rightarrow>
               Inr (case company_data of None \<Rightarrow> companies | Some c \<Rightarrow> c # companies)))"

text \<open>Lines 53 to 81; the \<^verbatim>\<open>except\<close> of line 79 returns the empty list.\<close>

definition search_companies :: "env \<Rightarrow> string \<Rightarrow> int \<Rightarrow> company list" where
  "search_companies e query page =
     (case fetch e query page of
        None \<Rightarrow> []
      | Some soup \<Rightarrow>
          (case parse_results (\<lambda>i. parse_company_result (strptime e) (clock e query page i)) 0
                  (find_all_class ''li'' ''type-company'' soup) of
             Inl ex \<Rightarrow> []
           | Inr companies \<Rightarrow> companies))"

text \<open>\<^verbatim>\<open>simple_scraper.py\<close> lines 33 to 71.\<close>

definition simple_search_companies :: "env \<Rightarrow> string \<Rightarrow> int \<Rightarrow> company list" where
  "simple_search_companies e query page =
     (case fetch e query page of
        None \<Rightarrow> []
      | Some soup \<Rightarrow>
          (case parse_results (\<lambda>i. simple_parse_company_result (clock e query page i)) 0
                  (find_all_class ''li'' ''type-company'' soup) of
             Inl ex \<Rightarrow> []
           | Inr companies \<Rightarrow> companies))"

subsection \<open>The table \<^verbatim>\<open>scraped_companies\<close>\<close>

text \<open>
  A row has the columns that the statement of \<^verbatim>\<open>save_company_to_db\<close> names. The table
  is a map from \<^verbatim>\<open>company_number\<close>, the column of the \<^verbatim>\<open>ON CONFLICT\<close> target, to the
  row. A connection holds the table as of the last commit, the table as the open
  transaction sees it, and the sequence behind \<^verbatim>\<open>id\<close>.
\<close>

record db_row =
  row_id :: nat
  row_company_number :: string
  row_company_name :: string
  row_company_type :: "string option"
  row_company_status :: string
  row_date_of_creation :: "date_value option"
  row_address :: "string option"
  row_postal_code :: "string option"
  row_sector_keyword :: "string option"
  row_company_url :: string
  row_scraped_at :: timestamp
  row_data_source :: string
  row_last_checked_at :: timestamp
  row_updated_at :: timestamp

record connection =
  committed :: "string \<rightharpoonup> db_row"
  pending :: "string \<rightharpoonup> db_row"
  id_seq :: nat

text \<open>\<^verbatim>\<open>COALESCE(a, b)\<close>\<close>

fun coalesce :: "'a option \<Rightarrow> 'a option \<Rightarrow> 'a option" where
  "coalesce (Some a) b = Some a"
| "coalesce None b = b"

text \<open>
  \<^verbatim>\<open>db_scraper_fixed.py\<close> lines 177 to 182, \<^verbatim>\<open>DO UPDATE SET\<close>: \<open>excluded\<close> is the row
  proposed for insertion, \<open>old\<close> the row in the table.
\<close>

definition on_conflict_update :: "timestamp \<Rightarrow> db_row \<Rightarrow> db_row \<Rightarrow> db_row" where
  "on_conflict_update now excluded old =
     old\<lparr>row_company_name := row_company_name excluded,
         row_address := coalesce (row_address excluded) (row_address old),
         row_postal_code := coalesce (row_postal_code excluded) (row_postal_code old),
         row_last_checked_at := now,
         row_updated_at := now\<rparr>"

text \<open>\<^verbatim>\<open>db_scraper.py\<close> lines 173 to 178: the same clause before the fix.\<close>

definition on_conflict_update_db_scraper :: "timestamp \<Rightarrow> db_row \<Rightarrow> db_row \<Rightarrow> db_row" where
  "on_conflict_update_db_scraper now excluded old =
     old\<lparr>row_company_name := row_company_name excluded,
         row_address := row_address excluded,
         row_postal_code := row_postal_code excluded,
         row_last_checked_at := now,
         row_updated_at := now\<rparr>"

text \<open>
  Modelled from the spec: the default of the columns \<^verbatim>\<open>last_checked_at\<close> and
  \<^verbatim>\<open>updated_at\<close>, which the \<^verbatim>\<open>INSERT\<close> does not list. The definition of the table
  is not among the sources; the specification says of a first insert: "timestamps set
  to now".
\<close>

definition default_timestamp :: "timestamp \<Rightarrow> timestamp" where
  "default_timestamp now = now"

text \<open>
  Lines 169 to 198: the row of the \<^verbatim>\<open>VALUES\<close> clause. \<^verbatim>\<open>company_status\<close> is
  \<^verbatim>\<open>company.get('company_status', 'active')\<close>.
\<close>

definition values_row :: "nat \<Rightarrow> timestamp \<Rightarrow> company \<Rightarrow> db_row" where
  "values_row new_id now c =
     \<lparr>row_id = new_id,
      row_company_number = company_number c,
      row_company_name = company_name c,
      row_company_type = company_type c,
      row_company_status = (case company_status c of None \<Rightarrow> ''active'' | Some s \<Rightarrow> s),
      row_date_of_creation = date_of_creation c,
      row_address = address c,
      row_postal_code = postal_code c,
      row_sector_keyword = sector_keyword c,
      row_company_url = company_url c,
      row_scraped_at = scraped_at c,
      row_data_source = ''companies_house'',
      row_last_checked_at = default_timestamp now,
      row_updated_at = default_timestamp now\<rparr>"

text \<open>
  \<^verbatim>\<open>cur.execute(insert_query, ...)\<close> followed by \<^verbatim>\<open>cur.fetchone()\<close>: the statement
  inserts the row, or updates the row that has the same \<^verbatim>\<open>company_number\<close>, inside
  the open transaction, and returns the \<^verbatim>\<open>id\<close> of the row. The sequence advances
  in both cases.
\<close>

definition execute_insert ::
  "(timestamp \<Rightarrow> db_row \<Rightarrow> db_row \<Rightarrow> db_row) \<Rightarrow> timestamp \<Rightarrow> company \<Rightarrow> connection \<Rightarrow> nat option \<times> connection" where
  "execute_insert do_update now c conn =
     (let excluded = values_row (id_seq conn) now c;
          stored = (case pending conn (company_number c) of
                      None \<Rightarrow> excluded
                    | Some old \<Rightarrow> do_update now excluded old)
      in (Some (row_id stored),
          conn\<lparr>pending := (pending conn)(company_number c \<mapsto> stored),
               id_seq := Suc (id_seq conn)\<rparr>))"

text \<open>\<^verbatim>\<open>conn.commit()\<close> and \<^verbatim>\<open>conn.rollback()\<close>\<close>

definition commit :: "connection \<Rightarrow> connection" where
  "commit conn = conn\<lparr>committed := pending conn\<rparr>"

definition rollback :: "connection \<Rightarrow> connection" where
  "rollback conn = conn\<lparr>pending := committed conn\<rparr>"

subsection \<open>\<^verbatim>\<open>save_company_to_db\<close>\<close>

text \<open>
  \<^verbatim>\<open>db_scraper_fixed.py\<close> lines 163 to 209 and \<^verbatim>\<open>db_scraper.py\<close> lines 159 to 205:
  the two functions differ in the \<^verbatim>\<open>DO UPDATE SET\<close> clause only, which is the
  argument \<open>do_update\<close> here. The first component of the result is the returned
  \<^verbatim>\<open>bool\<close>, or \<open>Inl\<close> for an exception that leaves the function.
  \<^item> \<open>No_fault\<close>: the \<^verbatim>\<open>try\<close> block runs to its end.
  \<^item> \<open>Statement_fault\<close>: \<^verbatim>\<open>cur.execute\<close> raises (a constraint is violated, a
    value does not fit its column); the handler logs, rolls back and returns
    \<^verbatim>\<open>False\<close>.
  \<^item> \<open>Connection_fault\<close>: the connection to the server is gone. \<^verbatim>\<open>cur.execute\<close>
    raises, the handler is entered, and its \<^verbatim>\<open>conn.rollback()\<close>, which no
    \<^verbatim>\<open>try\<close> encloses, raises as well.
\<close>

definition save_company_with ::
  "(timestamp \<Rightarrow> db_row \<Rightarrow> db_row \<Rightarrow> db_row) \<Rightarrow> fault \<Rightarrow> timestamp \<Rightarrow> company \<Rightarrow> connection
     \<Rightarrow> (py_exception + bool) \<times> connection" where
  "save_company_with do_update f now company conn =
     (case f of
        No_fault \<Rightarrow>
          (case execute_insert do_update now company conn of
             (result, conn1) \<Rightarrow> (Inr (result \<noteq> None), commit conn1))
      | Statement_fault \<Rightarrow> (Inr False, rollback conn)
      | Connection_fault \<Rightarrow> (Inl InterfaceError, conn))"

text \<open>\<^verbatim>\<open>db_scraper_fixed.py\<close>\<close>

definition save_company_to_db ::
  "fault \<Rightarrow> timestamp \<Rightarrow> company \<Rightarrow> connection \<Rightarrow> (py_exception + bool) \<times> connection" where
  "save_company_to_db = save_company_with on_conflict_update"

text \<open>\<^verbatim>\<open>db_scraper.py\<close>\<close>

definition save_company_to_db_db_scraper ::
  "fault \<Rightarrow> timestamp \<Rightarrow> company \<Rightarrow> connection \<Rightarrow> (py_exception + bool) \<times> connection" where
  "save_company_to_db_db_scraper = save_company_with on_conflict_update_db_scraper"

subsection \<open>\<^verbatim>\<open>db_scraper_fixed.py\<close>: \<^verbatim>\<open>scrape_and_save\<close>\<close>

text \<open>
  The state of a run: the connection, the counters of the source, and two traces that
  the source does not keep: the requests issued (query and page) and the candidates
  handed to \<^verbatim>\<open>save_company_to_db\<close>, each in order. \<^verbatim>\<open>page_saved\<close> is only logged
  and is left out, as are the log lines, the calls of \<^verbatim>\<open>time.sleep\<close> and the summary
  queries after the loops.
\<close>

record run_state =
  conn :: connection
  total_saved :: int
  sector_count :: int
  sector_stats :: "string \<rightharpoonup> int"
  requests :: "(string \<times> int) list"
  upserts :: "company list"

text \<open>
  Lines 230 to 235: the loop over the candidates of one page. The first component is
  the exception that ended the loop, if any.
\<close>

fun save_page :: "env \<Rightarrow> string \<Rightarrow> company list \<Rightarrow> run_state \<Rightarrow> py_exception option \<times> run_state" where
  "save_page e sector [] st = (None, st)"
| "save_page e sector (company # companies) st =
     (let c = company\<lparr>sector_keyword := Some sector\<rparr>;
          k = length (upserts st)
      in case save_company_to_db (db_fault e k) (db_now e k) c (conn st) of
           (Inl ex, conn1) \<Rightarrow> (Some ex, st\<lparr>conn := conn1, upserts := upserts st @ [c]\<rparr>)
         | (Inr saved, conn1) \<Rightarrow>
             save_page e sector companies
               (if saved
                then st\<lparr>conn := conn1, upserts := upserts st @ [c],
                        sector_count := sector_count st + 1, total_saved := total_saved st + 1\<rparr>
                else st\<lparr>conn := conn1, upserts := upserts st @ [c]\<rparr>))"

text \<open>Lines 222 to 240: the loop over the pages that are left; \<^verbatim>\<open>break\<close> on an empty page.\<close>

fun scrape_pages :: "env \<Rightarrow> string \<Rightarrow> int list \<Rightarrow> run_state \<Rightarrow> py_exception option \<times> run_state" where
  "scrape_pages e sector [] st = (None, st)"
| "scrape_pages e sector (page # pages) st =
     (let companies = search_companies e sector page;
          st1 = st\<lparr>requests := requests st @ [(sector, page)]\<rparr>
      in if companies = [] then (None, st1)
         else (case save_page e sector companies st1 of
                 (Some ex, st2) \<Rightarrow> (Some ex, st2)
               | (None, st2) \<Rightarrow> scrape_pages e sector pages st2))"

text \<open>Lines 218 to 246: the loop over the sectors; \<^verbatim>\<open>range(1, max_pages + 1)\<close> is \<open>[1..max_pages]\<close>.\<close>

fun scrape_sectors :: "env \<Rightarrow> int \<Rightarrow> string list \<Rightarrow> run_state \<Rightarrow> py_exception option \<times> run_state" where
  "scrape_sectors e max_pages [] st = (None, st)"
| "scrape_sectors e max_pages (sector # sectors) st =
     (case scrape_pages e sector [1..max_pages] (st\<lparr>sector_count := 0\<rparr>) of
        (Some ex, st1) \<Rightarrow> (Some ex, st1)
      | (None, st1) \<Rightarrow>
          scrape_sectors e max_pages sectors
            (st1\<lparr>sector_stats := (sector_stats st1)(sector \<mapsto> sector_count st1)\<rparr>))"

text \<open>
  Lines 211 to 279, up to the summary. \<open>conn0\<close> is the connection that
  \<^verbatim>\<open>connect_db\<close> returned. An exception, the first component, leaves the function
  through the \<^verbatim>\<open>finally\<close> of line 278: no \<^verbatim>\<open>except\<close> stands between.
\<close>

definition scrape_and_save :: "env \<Rightarrow> string list \<Rightarrow> int \<Rightarrow> connection \<Rightarrow> py_exception option \<times> run_state" where
  "scrape_and_save e sectors max_pages conn0 =
     scrape_sectors e max_pages sectors
       \<lparr>conn = conn0, total_saved = 0, sector_count = 0, sector_stats = Map.empty,
        requests = [], upserts = []\<rparr>"

subsection \<open>\<^verbatim>\<open>simple_scraper.py\<close>: \<^verbatim>\<open>scrape_companies_by_sector\<close>\<close>

text \<open>The two variables of the source and the trace of the requests issued.\<close>

record simple_state =
  all_companies :: "company list"
  seen_companies :: "string set"
  simple_requests :: "(string \<times> int) list"

text \<open>Lines 172 to 177: the loop over the candidates of one page.\<close>

fun add_companies :: "string \<Rightarrow> company list \<Rightarrow> simple_state \<Rightarrow> simple_state" where
  "add_companies sector [] st = st"
| "add_companies sector (company # companies) st =
     (if company_number company \<noteq> [] \<and> company_number company \<notin> seen_companies st then
        add_companies sector companies
          (st\<lparr>seen_companies := insert (company_number company) (seen_companies st),
              all_companies := all_companies st @ [company\<lparr>sector_keyword := Some sector\<rparr>]\<rparr>)
      else add_companies sector companies st)"

text \<open>Lines 166 to 182: the loop over the pages that are left.\<close>

fun simple_scrape_pages :: "env \<Rightarrow> string \<Rightarrow> int list \<Rightarrow> simple_state \<Rightarrow> simple_state" where
  "simple_scrape_pages e sector [] st = st"
| "simple_scrape_pages e sector (page # pages) st =
     (let companies = simple_search_companies e sector page;
          st1 = st\<lparr>simple_requests := simple_requests st @ [(sector, page)]\<rparr>
      in if companies = [] then st1
         else simple_scrape_pages e sector pages (add_companies sector companies st1))"

text \<open>Lines 163 to 185: the loop over the sectors.\<close>

fun simple_scrape_sectors :: "env \<Rightarrow> int \<Rightarrow> string list \<Rightarrow> simple_state \<Rightarrow> simple_state" where
  "simple_scrape_sectors e max_pages [] st = st"
| "simple_scrape_sectors e max_pages (sector # sectors) st =
     simple_scrape_sectors e max_pages sectors (simple_scrape_pages e sector [1..max_pages] st)"

text \<open>Lines 149 to 187: the final state of the run, and the list that is returned.\<close>

definition scrape_companies_by_sector_run :: "env \<Rightarrow> string list \<Rightarrow> int \<Rightarrow> simple_state" where
  "scrape_companies_by_sector_run e sectors max_pages =
     simple_scrape_sectors e max_pages sectors
       \<lparr>all_companies = [], seen_companies = {}, simple_requests = []\<rparr>"

definition scrape_companies_by_sector :: "env \<Rightarrow> string list \<Rightarrow> int \<Rightarrow> company list" where
  "scrape_companies_by_sector e sectors max_pages =
     all_companies (scrape_companies_by_sector_run e sectors max_pages)"

subsection \<open>Words of the specification\<close>

text \<open>
  "The new candidate supplies a non-empty value" for an optional field: the key is
  present and its string is not empty.
\<close>

definition supplies :: "string option \<Rightarrow> bool" where
  "supplies v = (v \<noteq> None \<and> v \<noteq> Some [])"

subsection \<open>An invariant of \<^verbatim>\<open>scrape_companies_by_sector\<close>\<close>

text \<open>
  The candidates collected so far have pairwise different, non-empty identifiers, and
  each identifier is in \<^verbatim>\<open>seen_companies\<close>.
\<close>

definition dedup_inv :: "simple_state \<Rightarrow> bool" where
  "dedup_inv st = (distinct (map company_number (all_companies st))
     \<and> set (map company_number (all_companies st)) \<subseteq> seen_companies st
     \<and> [] \<notin> set (map company_number (all_companies st)))"

subsection \<open>The entity type as a function\<close>

text \<open>
  \<^verbatim>\<open>simple_scraper.py\<close> lines 122 to 127 as a function of the paragraph text: the type
  that \<open>company_type_from_text\<close> sets, \<open>None\<close> when it sets none. This is the phrase
  mapping of the specification, with the order of the \<^verbatim>\<open>if\<close> chain.
\<close>

definition phrase_entity_type :: "string \<Rightarrow> string option" where
  "phrase_entity_type text =
     (if str_in ''Private limited Company'' text then Some ''ltd''
      else if str_in ''Public limited Company'' text then Some ''plc''
      else if str_in ''Limited liability partnership'' text then Some ''llp''
      else None)"

text \<open>
  \<^verbatim>\<open>db_scraper_fixed.py\<close> lines 141 to 147 as a function of the company name: the
  type that \<open>company_type_from_name\<close> sets, \<open>None\<close> when it sets none.
\<close>

definition name_entity_type :: "string \<Rightarrow> string option" where
  "name_entity_type name =
     (if str_in ''LIMITED'' (upper name) then
        (if str_in ''PLC'' (upper name) then Some ''plc''
         else if str_in ''LLP'' (upper name) then Some ''llp''
         else Some ''ltd'')
      else None)"

text \<open>"Last-observed wins": the last value that is not \<open>None\<close>, if there is one.\<close>

fun last_observed :: "'a option list \<Rightarrow> 'a option" where
  "last_observed [] = None"
| "last_observed (x # xs) = (case last_observed xs of None \<Rightarrow> x | Some t \<Rightarrow> Some t)"

text \<open>
  The paragraph texts that the loop of \<^verbatim>\<open>simple_scraper.py\<close> scans for a type: all but
  those that the \<^verbatim>\<open>continue\<close> of line 119 skips.
\<close>

definition scanned_texts :: "node \<Rightarrow> string list" where
  "scanned_texts el =
     filter (\<lambda>text. str_in ''Active'' text \<or> \<not> str_in ''Dissolved'' text)
       (map (\<lambda>detail. strip (get_text detail)) (find_all ''p'' el))"

subsection \<open>Example inputs\<close>

text \<open>Search results as the site renders them, used to run the definitions.\<close>

definition example_link :: node where
  "example_link = Tag ''a'' [] [(''href'', ''/company/12345678'')] [Text ''ACME WIDGETS LIMITED'']"

definition example_heading :: node where
  "example_heading = Tag ''h3'' [''heading-medium''] [] [example_link]"

definition example_result :: node where
  "example_result =
     Tag ''li'' [''type-company''] []
       [example_heading,
        Tag ''p'' [] [] [Text ''12345678 - Incorporated on 1 January 2020''],
        Tag ''p'' [] [] [Text ''1 High Street, London, SW1A 1AA'']]"

definition example_company :: company where
  "example_company =
     \<lparr>company_name = ''ACME WIDGETS LIMITED'', company_number = ''12345678'',
      company_url = ''https://find-and-update.company-information.service.gov.uk/company/12345678'',
      company_status = Some ''active'', scraped_at = 0, date_of_creation = None,
      company_type = Some ''ltd'', address = Some ''1 High Street, London, SW1A 1AA'',
      postal_code = Some ''SW1A 1AA'', sector_keyword = None\<rparr>"

definition example_dissolved_detail :: node where
  "example_dissolved_detail = Tag ''p'' [] [] [Text ''12345678 - Dissolved on 3 March 2021'']"

definition example_dissolved_result :: node where
  "example_dissolved_result =
     Tag ''li'' [''type-company''] [] [example_heading, example_dissolved_detail]"

definition example_no_link_result :: node where
  "example_no_link_result =
     Tag ''li'' [''type-company''] []
       [Tag ''h3'' [] [] [Text ''ACME WIDGETS LIMITED''],
        Tag ''p'' [] [] [Text ''12345678 - Incorporated on 1 January 2020'']]"

definition no_strptime :: "string \<Rightarrow> date option" where
  "no_strptime s = None"

definition example_result_no_address :: node where
  "example_result_no_address =
     Tag ''li'' [''type-company''] []
       [example_heading, Tag ''p'' [] [] [Text ''12345678 - Incorporated on 1 January 2020'']]"

definition example_company_no_address :: company where
  "example_company_no_address =
     example_company\<lparr>address := None, postal_code := None\<rparr>"

definition example_stored_row :: db_row where
  "example_stored_row =
     \<lparr>row_id = 1, row_company_number = ''12345678'', row_company_name = ''ACME WIDGETS'',
      row_company_type = Some ''plc'', row_company_status = ''active'',
      row_date_of_creation = Some (Date_obj (2019, 2, 2)),
      row_address = Some ''2 Low Road, Leeds, LS1 1AA'', row_postal_code = Some ''LS1 1AA'',
      row_sector_keyword = Some ''finance'',
      row_company_url = ''https://find-and-update.company-information.service.gov.uk/company/12345678'',
      row_scraped_at = 1, row_data_source = ''companies_house'',
      row_last_checked_at = 1, row_updated_at = 1\<rparr>"

definition example_connection :: connection where
  "example_connection =
     \<lparr>committed = [''12345678'' \<mapsto> example_stored_row],
      pending = [''12345678'' \<mapsto> example_stored_row], id_seq = 2\<rparr>"

definition empty_connection :: connection where
  "empty_connection = \<lparr>committed = Map.empty, pending = Map.empty, id_seq = 1\<rparr>"

text \<open>
  The end-to-end example of the specification: sectors \<^verbatim>\<open>technology\<close> and
  \<^verbatim>\<open>finance\<close>; page 1 of \<^verbatim>\<open>technology\<close> lists A (123) and B (456, dissolved), page 2
  lists A again and C (789). Here page 1 of \<^verbatim>\<open>finance\<close> lists A as well, and every
  other request fails.
\<close>

definition example_item :: "string \<Rightarrow> string \<Rightarrow> string \<Rightarrow> node" where
  "example_item name number line =
     Tag ''li'' [''type-company''] []
       [Tag ''h3'' [''heading-medium''] [] [Tag ''a'' [] [(''href'', ''/company/'' @ number)] [Text name]],
        Tag ''p'' [] [] [Text line]]"

definition example_page :: "node list \<Rightarrow> node" where
  "example_page items = Tag ''[document]'' [] [] [Tag ''ul'' [''results-list''] [] items]"

definition item_A :: node where
  "item_A = example_item ''ALPHA LIMITED'' ''123'' ''123 - Active - Incorporated on 1 January 2020''"

definition item_B :: node where
  "item_B = example_item ''BETA LIMITED'' ''456'' ''456 - Dissolved on 3 March 2021''"

definition item_C :: node where
  "item_C = example_item ''GAMMA LIMITED'' ''789'' ''789 - Active - Incorporated on 2 February 2019''"

definition example_fetch :: "string \<Rightarrow> int \<Rightarrow> node option" where
  "example_fetch query page =
     (if query = ''technology'' \<and> page = 1 then Some (example_page [item_A, item_B])
      else if query = ''technology'' \<and> page = 2 then Some (example_page [item_A, item_C])
      else if query = ''finance'' \<and> page = 1 then Some (example_page [item_A])
      else None)"

definition example_env :: env where
  "example_env =
     \<lparr>fetch = example_fetch, clock = (\<lambda>query page i. 0), strptime = no_strptime,
      db_fault = (\<lambda>k. No_fault), db_now = (\<lambda>k. k)\<rparr>"

text \<open>The same world, in which the connection to the database is lost during the second call.\<close>

definition example_env_connection_lost :: env where
  "example_env_connection_lost =
     example_env\<lparr>db_fault := (\<lambda>k. if k = 1 then Connection_fault else No_fault)\<rparr>"

definition company_A :: company where
  "company_A =
     \<lparr>company_name = ''ALPHA LIMITED'', company_number = ''123'',
      company_url = ''https://find-and-update.company-information.service.gov.uk/company/123'',
      company_status = Some ''active'', scraped_at = 0, date_of_creation = None,
      company_type = Some ''ltd'', address = None, postal_code = None, sector_keyword = None\<rparr>"

definition company_C :: company where
  "company_C =
     \<lparr>company_name = ''GAMMA LIMITED'', company_number = ''789'',
      company_url = ''https://find-and-update.company-information.service.gov.uk/company/789'',
      company_status = Some ''active'', scraped_at = 0, date_of_creation = None,
      company_type = Some ''ltd'', address = None, postal_code = None, sector_keyword = None\<rparr>"

text \<open>Results whose paragraph names a type.\<close>

definition example_plc_result :: node where
  "example_plc_result =
     Tag ''li'' [''type-company''] []
       [example_heading, Tag ''p'' [] [] [Text ''Public limited Company'']]"

definition example_two_phrases_result :: node where
  "example_two_phrases_result =
     Tag ''li'' [''type-company''] []
       [example_heading,
        Tag ''p'' [] [] [Text ''Active - Private limited Company, converted to Public limited Company'']]"

section \<open>Properties\<close>

subsection \<open>Strings\<close>

lemma startswith_iff: "startswith s p \<longleftrightarrow> (\<exists>b. s = p @ b)"
  unfolding startswith_def
  by (metis append_eq_conv_conj append_take_drop_id)

text \<open>\<open>str_in\<close> is the substring relation.\<close>

lemma str_in_iff: "str_in p s \<longleftrightarrow> (\<exists>a b. s = a @ p @ b)"
proof (induction s)
  case Nil
  then show ?case by auto
next
  case (Cons c cs)
  show ?case
  proof
    assume "str_in p (c # cs)"
    then consider "startswith (c # cs) p" | "str_in p cs" by auto
    then show "\<exists>a b. c # cs = a @ p @ b"
    proof cases
      case 1
      then obtain b where "c # cs = p @ b" by (auto simp: startswith_iff)
      then have "c # cs = [] @ p @ b" by simp
      then show ?thesis by blast
    next
      case 2
      then obtain a b where "cs = a @ p @ b" using Cons.IH by blast
      then have "c # cs = (c # a) @ p @ b" by simp
      then show ?thesis by blast
    qed
  next
    assume "\<exists>a b. c # cs = a @ p @ b"
    then obtain a b where ab: "c # cs = a @ p @ b" by blast
    show "str_in p (c # cs)"
    proof (cases a)
      case Nil
      then have "startswith (c # cs) p" using ab by (auto simp: startswith_iff)
      then show ?thesis by simp
    next
      case (Cons x a')
      then have "cs = a' @ p @ b" using ab by simp
      then have "str_in p cs" using Cons.IH by blast
      then show ?thesis by simp
    qed
  qed
qed

lemma dropWhile_keeps_infix:
  "p \<noteq> [] \<Longrightarrow> \<not> P (hd p) \<Longrightarrow> \<exists>a'. dropWhile P (a @ p @ b) = a' @ p @ b"
proof (induction a)
  case Nil
  then have "dropWhile P (p @ b) = p @ b" by (cases p) auto
  then have "dropWhile P ([] @ p @ b) = [] @ p @ b" by simp
  then show ?case by blast
next
  case (Cons x a)
  then obtain a' where a': "dropWhile P (a @ p @ b) = a' @ p @ b" by blast
  show ?case
  proof (cases "P x")
    case True
    then show ?thesis using a' by auto
  next
    case False
    then have "dropWhile P ((x # a) @ p @ b) = (x # a) @ p @ b" by simp
    then show ?thesis by blast
  qed
qed

text \<open>A word that neither starts nor ends with white space survives \<open>strip\<close>.\<close>

lemma strip_keeps_infix:
  assumes "p \<noteq> []" "hd p \<notin> set whitespace" "last p \<notin> set whitespace" "str_in p s"
  shows "str_in p (strip s)"
proof -
  let ?P = "\<lambda>c. c \<in> set whitespace"
  obtain a b where "s = a @ p @ b" using assms(4) by (auto simp: str_in_iff)
  then obtain a' where a': "dropWhile ?P s = a' @ p @ b"
    using dropWhile_keeps_infix[of p ?P a b] assms by auto
  then have "rev (dropWhile ?P s) = rev b @ rev p @ rev a'" by simp
  moreover have "rev p \<noteq> []" "\<not> ?P (hd (rev p))" using assms by (auto simp: hd_rev)
  ultimately obtain b' where "dropWhile ?P (rev (dropWhile ?P s)) = b' @ rev p @ rev a'"
    using dropWhile_keeps_infix[of "rev p" ?P "rev b" "rev a'"] by auto
  then have "strip s = a' @ p @ rev b'" by (simp add: strip_def)
  then show ?thesis by (auto simp: str_in_iff)
qed

lemma dropWhile_is_suffix: "\<exists>a. s = a @ dropWhile P s"
  by (metis takeWhile_dropWhile_id)

lemma strip_infix_of: "\<exists>a b. s = a @ strip s @ b"
proof -
  let ?P = "\<lambda>c. c \<in> set whitespace"
  obtain a where a: "s = a @ dropWhile ?P s" using dropWhile_is_suffix by blast
  obtain b where b: "rev (dropWhile ?P s) = b @ dropWhile ?P (rev (dropWhile ?P s))"
    using dropWhile_is_suffix by blast
  have "dropWhile ?P s = rev (b @ dropWhile ?P (rev (dropWhile ?P s)))"
    using b by (metis rev_rev_ident)
  then have "dropWhile ?P s = strip s @ rev b" by (simp add: strip_def)
  then have "s = a @ strip s @ rev b" using a by simp
  then show ?thesis by blast
qed

lemma str_in_strip_imp: "str_in p (strip s) \<Longrightarrow> str_in p s"
proof -
  assume "str_in p (strip s)"
  then obtain a b where "strip s = a @ p @ b" by (auto simp: str_in_iff)
  moreover obtain a' b' where "s = a' @ strip s @ b'" using strip_infix_of by blast
  ultimately have "s = (a' @ a) @ p @ (b @ b')" by simp
  then show ?thesis unfolding str_in_iff by blast
qed

lemma dissolved_marker_strip: "dissolved_marker (strip s) \<longleftrightarrow> dissolved_marker s"
  unfolding dissolved_marker_def
  using strip_keeps_infix[of "''Dissolved''" s] strip_keeps_infix[of "''dissolved''" s]
        str_in_strip_imp[of "''Dissolved''" s] str_in_strip_imp[of "''dissolved''" s]
  by (auto simp: whitespace_def)

subsection \<open>Regular expressions\<close>

lemma first_some_map:
  "first_some (map f xs) = Some y \<Longrightarrow> \<exists>x \<in> set xs. f x = Some y"
  by (induction xs) (auto split: option.splits elim: first_some.elims)

text \<open>A pattern that starts with a repetition of at least one character matches no empty text.\<close>

lemma re_match_Rep_nonempty:
  assumes "re_match (Rep cls lo hi # r) s = Some m" "0 < lo"
  shows "m \<noteq> []"
proof -
  define run where "run = length (takeWhile (\<lambda>c. c \<in> set cls) s)"
  define top where "top = (case hi of None \<Rightarrow> run | Some h \<Rightarrow> min h run)"
  have "top \<le> run" by (simp add: top_def split: option.splits)
  moreover have "run \<le> length s" unfolding run_def by (rule length_takeWhile_le)
  ultimately have top: "top \<le> length s" by simp
  from assms(1) have "first_some (map (\<lambda>k. map_option ((@) (take k s)) (re_match r (drop k s)))
                         (rev [lo..<Suc top])) = Some m"
    unfolding run_def top_def by (simp only: re_match.simps Let_def)
  from first_some_map[OF this]
  obtain k where k: "k \<in> set (rev [lo..<Suc top])"
      and m: "map_option ((@) (take k s)) (re_match r (drop k s)) = Some m"
    by blast
  from k assms(2) top have "0 < k" "k \<le> length s" by auto
  then have "take k s \<noteq> []" by auto
  with m show ?thesis by auto
qed

lemma re_search_match: "re_search p s = Some m \<Longrightarrow> \<exists>s'. re_match p s' = Some m"
  by (induction s) (auto split: option.splits)

lemma company_number_group1_nonempty:
  assumes "re_search company_number_re url = Some m"
  shows "company_number_group1 m \<noteq> []"
proof -
  obtain s where "re_match company_number_re s = Some m" using assms re_search_match by blast
  then obtain m' where m': "m = ''/company/'' @ m'"
      and r: "re_match [Rep (uppercase @ digits) 1 None] (drop (length ''/company/'') s) = Some m'"
    unfolding company_number_re_def by (auto simp only: re_match.simps(2) split: if_splits)
  have "m' \<noteq> []" using re_match_Rep_nonempty[OF r] by simp
  then show ?thesis by (simp add: m' company_number_group1_def)
qed

lemma postal_match_nonempty:
  assumes "re_search postal_re text = Some m"
  shows "m \<noteq> []"
proof -
  obtain s where "re_match postal_re s = Some m" using assms re_search_match by blast
  then have "re_match (Rep uppercase 1 (Some 2) # tl postal_re) s = Some m"
    by (simp only: postal_re_def list.sel)
  then show ?thesis by (rule re_match_Rep_nonempty) simp
qed

subsection \<open>The parser of \<^verbatim>\<open>db_scraper_fixed.py\<close>\<close>

lemma find_all_Text [simp]: "find_all n (Text s) = []"
  by (simp add: find_all_def)

lemma find_tag_Text [simp]: "find_tag n (Text s) = None"
  by (simp add: find_tag_def)

lemma parse_details_dissolved:
  "detail \<in> set details \<Longrightarrow> dissolved_marker (get_text detail) \<Longrightarrow>
   parse_details sp name details d = None"
proof (induction details arbitrary: d)
  case Nil
  then show ?case by simp
next
  case (Cons x xs)
  show ?case
  proof (cases "dissolved_marker (get_text x)")
    case True
    then have "dissolved_marker (strip (get_text x))" by (simp add: dissolved_marker_strip)
    then show ?thesis by (simp add: Let_def)
  next
    case False
    then have "detail \<in> set xs" using Cons.prems by auto
    then have "parse_details sp name xs d' = None" for d' using Cons.IH Cons.prems(2) by blast
    then show ?thesis by (simp add: Let_def)
  qed
qed

lemma parse_details_not_dissolved:
  "\<forall>detail \<in> set details. \<not> dissolved_marker (get_text detail) \<Longrightarrow>
   \<exists>c. parse_details sp name details d = Some c"
proof (induction details arbitrary: d)
  case Nil
  then show ?case by simp
next
  case (Cons x xs)
  then have "\<not> dissolved_marker (strip (get_text x))" by (simp add: dissolved_marker_strip)
  then show ?case using Cons by (simp add: Let_def)
qed

lemma parse_detail_status [simp]: "company_status (parse_detail sp name text d) = company_status d"
  by (simp add: parse_detail_def company_type_from_name_def Let_def split: option.splits)

lemma parse_detail_name [simp]: "company_name (parse_detail sp name text d) = company_name d"
  by (simp add: parse_detail_def company_type_from_name_def Let_def split: option.splits)

lemma parse_detail_number:
  "company_number d \<noteq> [] \<Longrightarrow> company_number (parse_detail sp name text d) = company_number d"
  by (simp add: parse_detail_def company_type_from_name_def Let_def split: option.splits)

text \<open>The loop keeps the identifier, the status and the name it starts with.\<close>

lemma parse_details_keeps:
  "parse_details sp name details d = Some c \<Longrightarrow> company_number d \<noteq> [] \<Longrightarrow>
   company_number c = company_number d \<and> company_status c = company_status d
   \<and> company_name c = company_name d"
proof (induction details arbitrary: d)
  case Nil
  then show ?case by simp
next
  case (Cons x xs)
  let ?d = "parse_detail sp name (strip (get_text x)) d"
  from Cons.prems have "parse_details sp name xs ?d = Some c"
    by (simp add: Let_def split: if_splits)
  moreover have "company_number ?d = company_number d" using Cons.prems(2) by (rule parse_detail_number)
  ultimately show ?case using Cons.IH[of ?d] Cons.prems(2) by simp
qed

text \<open>What a candidate tells about the element it was parsed from.\<close>

lemma parse_company_result_Some:
  assumes "parse_company_result sp now el = Inr (Some c)"
  shows "\<exists>title_elem company_link m.
           find_tag ''h3'' el = Some title_elem \<and> find_tag ''a'' title_elem = Some company_link
         \<and> re_search company_number_re (get_attr company_link ''href'' []) = Some m
         \<and> company_number c = company_number_group1 m \<and> company_number c \<noteq> []
         \<and> company_name c = strip (get_text company_link)
         \<and> company_status c = Some ''active''"
proof (cases el)
  case (Text s)
  then show ?thesis using assms by (simp add: parse_company_result_def split: if_splits)
next
  case (Tag n cs as ch)
  from assms Tag obtain t where t: "find_tag ''h3'' el = Some t"
    by (auto simp: parse_company_result_def split: option.splits)
  from assms Tag t obtain l where l: "find_tag ''a'' t = Some l"
    by (auto simp: parse_company_result_def split: option.splits)
  from assms Tag t l obtain m where m: "re_search company_number_re (get_attr l ''href'' []) = Some m"
    by (auto simp: parse_company_result_def Let_def split: option.splits)
  let ?d = "\<lparr>company_name = strip (get_text l), company_number = company_number_group1 m,
             company_url = base_url @ get_attr l ''href'' [], company_status = Some ''active'',
             scraped_at = now, date_of_creation = None, company_type = None,
             address = None, postal_code = None, sector_keyword = None\<rparr>"
  have ne: "company_number_group1 m \<noteq> []" using m by (rule company_number_group1_nonempty)
  from assms Tag t l m ne have "parse_details sp (strip (get_text l)) (find_all ''p'' el) ?d = Some c"
    by (simp add: parse_company_result_def Let_def)
  from parse_details_keeps[OF this] ne
  have "company_number c = company_number_group1 m" "company_status c = Some ''active''"
       "company_name c = strip (get_text l)" by auto
  with t l m ne show ?thesis by auto
qed

text \<open>
  C10. For every result element, a tag or not, \<open>parse_company_result\<close> returns a
  candidate or \<^verbatim>\<open>None\<close> and raises nothing: the result is never \<open>Inl\<close>. An exception
  inside the \<^verbatim>\<open>try\<close> block becomes the result \<^verbatim>\<open>None\<close>. The same holds for the parser of
  \<^verbatim>\<open>simple_scraper.py\<close>. (Exceptions are those below \<^verbatim>\<open>Exception\<close>, which is what the
  handlers catch.)
\<close>

theorem parse_company_result_never_raises:
  "(\<exists>r. parse_company_result sp now el = Inr r)
   \<and> (\<forall>ex. parse_company_result_try sp now el = Inl ex \<longrightarrow> parse_company_result sp now el = Inr None)
   \<and> (\<exists>r. simple_parse_company_result now el = Inr r)
   \<and> (\<forall>ex. simple_parse_company_result_try now el = Inl ex \<longrightarrow> simple_parse_company_result now el = Inr None)"
  by (simp add: parse_company_result_def simple_parse_company_result_def split: sum.splits)

theorem parse_company_result_never_raises_witness:
  "parse_company_result_try no_strptime 0 (Text ''Acme'') = Inl AttributeError
   \<and> parse_company_result no_strptime 0 (Text ''Acme'') = Inr None
   \<and> simple_parse_company_result_try 0 (Text ''Acme'') = Inl TypeError
   \<and> simple_parse_company_result 0 (Text ''Acme'') = Inr None"
proof -
  have a: "parse_company_result_try no_strptime 0 (Text ''Acme'') = Inl AttributeError"
    by (simp add: startswith_def)
  have b: "simple_parse_company_result_try 0 (Text ''Acme'') = Inl TypeError" by simp
  from parse_company_result_never_raises[of no_strptime 0 "Text ''Acme''"] a b
  show ?thesis by simp
qed

text \<open>
  C4. A result element without an \<^verbatim>\<open>h3\<close>, or whose \<^verbatim>\<open>h3\<close> has no link, or whose
  link has an \<^verbatim>\<open>href\<close> that the pattern \<^verbatim>\<open>/company/([A-Z0-9]+)\<close> does not match, yields
  no candidate; and every candidate that \<open>parse_company_result\<close> returns has a
  non-empty \<^verbatim>\<open>company_number\<close>.
\<close>

theorem parse_company_result_identifier:
  "((\<forall>title_elem company_link.
        find_tag ''h3'' el = Some title_elem \<longrightarrow> find_tag ''a'' title_elem = Some company_link \<longrightarrow>
        re_search company_number_re (get_attr company_link ''href'' []) = None)
      \<longrightarrow> parse_company_result sp now el = Inr None)
   \<and> (parse_company_result sp now el = Inr (Some c) \<longrightarrow> company_number c \<noteq> [])"
proof (intro conjI impI)
  assume h: "\<forall>title_elem company_link.
        find_tag ''h3'' el = Some title_elem \<longrightarrow> find_tag ''a'' title_elem = Some company_link \<longrightarrow>
        re_search company_number_re (get_attr company_link ''href'' []) = None"
  obtain r where r: "parse_company_result sp now el = Inr r"
    by (cases "parse_company_result_try sp now el") (auto simp: parse_company_result_def)
  show "parse_company_result sp now el = Inr None"
  proof (cases r)
    case None
    then show ?thesis using r by simp
  next
    case (Some c)
    then have "parse_company_result sp now el = Inr (Some c)" using r by simp
    from parse_company_result_Some[OF this] h show ?thesis by auto
  qed
next
  assume "parse_company_result sp now el = Inr (Some c)"
  from parse_company_result_Some[OF this] show "company_number c \<noteq> []" by auto
qed

theorem parse_company_result_identifier_witness:
  "parse_company_result no_strptime 0 example_no_link_result = Inr None
   \<and> parse_company_result no_strptime 0 example_result = Inr (Some example_company)
   \<and> company_number example_company \<noteq> []"
proof -
  have "find_tag ''a'' (Tag ''h3'' [] [] [Text ''ACME WIDGETS LIMITED'']) = None"
    by code_simp
  moreover have "find_tag ''h3'' example_no_link_result = Some (Tag ''h3'' [] [] [Text ''ACME WIDGETS LIMITED''])"
    by code_simp
  ultimately have h: "\<forall>title_elem company_link.
        find_tag ''h3'' example_no_link_result = Some title_elem \<longrightarrow>
        find_tag ''a'' title_elem = Some company_link \<longrightarrow>
        re_search company_number_re (get_attr company_link ''href'' []) = None"
    by simp
  have p: "parse_company_result no_strptime 0 example_result = Inr (Some example_company)"
    by code_simp
  from parse_company_result_identifier[of example_no_link_result no_strptime 0 example_company] h
  have "parse_company_result no_strptime 0 example_no_link_result = Inr None" by blast
  moreover from parse_company_result_identifier[of example_result no_strptime 0 example_company] p
  have "company_number example_company \<noteq> []" by blast
  ultimately show ?thesis using p by simp
qed

text \<open>
  C3. When the text of some paragraph of a result element contains \<^verbatim>\<open>Dissolved\<close> (or
  \<^verbatim>\<open>dissolved\<close>, which line 121 tests as well), \<open>parse_company_result\<close> yields no
  candidate, whatever else the element holds.
\<close>

theorem parse_company_result_dissolved:
  assumes "detail \<in> set (find_all ''p'' el)" "dissolved_marker (get_text detail)"
  shows "parse_company_result sp now el = Inr None"
proof (cases el)
  case (Text s)
  then show ?thesis using assms by simp
next
  case (Tag n cs as ch)
  have "parse_details sp name (find_all ''p'' el) d = None" for name d
    using assms by (rule parse_details_dissolved)
  then show ?thesis using Tag
    by (simp add: parse_company_result_def Let_def split: option.splits sum.splits)
qed

theorem parse_company_result_dissolved_witness:
  "example_dissolved_detail \<in> set (find_all ''p'' example_dissolved_result)
   \<and> str_in ''Dissolved'' (get_text example_dissolved_detail)
   \<and> parse_company_result no_strptime 0 example_dissolved_result = Inr None"
proof -
  have a: "example_dissolved_detail \<in> set (find_all ''p'' example_dissolved_result)" by code_simp
  have b: "str_in ''Dissolved'' (get_text example_dissolved_detail)" by code_simp
  then have "dissolved_marker (get_text example_dissolved_detail)" by (simp add: dissolved_marker_def)
  from parse_company_result_dissolved[OF a this] a b show ?thesis by simp
qed

text \<open>
  C8. A result element with a heading link whose \<^verbatim>\<open>href\<close> matches the pattern, and
  with no paragraph that contains \<^verbatim>\<open>Active\<close> or the dissolved marker, yields a candidate,
  and the candidate's \<^verbatim>\<open>company_status\<close> is \<^verbatim>\<open>active\<close>.
\<close>

theorem parse_company_result_default_active:
  assumes "find_tag ''h3'' el = Some title_elem" "find_tag ''a'' title_elem = Some company_link"
    "re_search company_number_re (get_attr company_link ''href'' []) = Some m"
    "\<forall>detail \<in> set (find_all ''p'' el).
       \<not> str_in ''Active'' (get_text detail) \<and> \<not> dissolved_marker (get_text detail)"
  shows "\<exists>c. parse_company_result sp now el = Inr (Some c) \<and> company_status c = Some ''active''"
proof (cases el)
  case (Text s)
  then show ?thesis using assms by simp
next
  case (Tag n cs as ch)
  have ne: "company_number_group1 m \<noteq> []" using assms(3) by (rule company_number_group1_nonempty)
  obtain c where "parse_details sp (strip (get_text company_link)) (find_all ''p'' el)
         \<lparr>company_name = strip (get_text company_link), company_number = company_number_group1 m,
          company_url = base_url @ get_attr company_link ''href'' [], company_status = Some ''active'',
          scraped_at = now, date_of_creation = None, company_type = None,
          address = None, postal_code = None, sector_keyword = None\<rparr> = Some c"
    using parse_details_not_dissolved assms(4) by blast
  then have "parse_company_result sp now el = Inr (Some c)"
    using Tag assms(1-3) ne by (simp add: parse_company_result_def Let_def)
  moreover from parse_company_result_Some[OF this] have "company_status c = Some ''active''" by auto
  ultimately show ?thesis by blast
qed

theorem parse_company_result_default_active_witness:
  "find_tag ''h3'' example_result = Some example_heading
   \<and> find_tag ''a'' example_heading = Some example_link
   \<and> re_search company_number_re (get_attr example_link ''href'' []) = Some ''/company/12345678''
   \<and> list_all (\<lambda>detail. \<not> str_in ''Active'' (get_text detail) \<and> \<not> dissolved_marker (get_text detail))
         (find_all ''p'' example_result)
   \<and> (\<exists>c. parse_company_result no_strptime 0 example_result = Inr (Some c)
          \<and> company_status c = Some ''active'')"
proof -
  have a: "find_tag ''h3'' example_result = Some example_heading" by code_simp
  have b: "find_tag ''a'' example_heading = Some example_link" by code_simp
  have c: "re_search company_number_re (get_attr example_link ''href'' []) = Some ''/company/12345678''"
    by code_simp
  have e: "list_all (\<lambda>detail. \<not> str_in ''Active'' (get_text detail) \<and> \<not> dissolved_marker (get_text detail))
         (find_all ''p'' example_result)"
    by code_simp
  then have d: "\<forall>detail \<in> set (find_all ''p'' example_result).
         \<not> str_in ''Active'' (get_text detail) \<and> \<not> dissolved_marker (get_text detail)"
    by (simp only: list_all_iff)
  from parse_company_result_default_active[OF a b c d, of no_strptime 0] a b c e
  show ?thesis by blast
qed

subsection \<open>The upsert\<close>

lemma parse_detail_address:
  "address d \<noteq> Some [] \<Longrightarrow> address (parse_detail sp name text d) \<noteq> Some []"
  by (auto simp: parse_detail_def company_type_from_name_def Let_def split: option.splits)

lemma parse_detail_postal_code:
  "postal_code d \<noteq> Some [] \<Longrightarrow> postal_code (parse_detail sp name text d) \<noteq> Some []"
  by (auto simp: parse_detail_def company_type_from_name_def Let_def postal_match_nonempty
           split: option.splits)

lemma parse_details_no_empty_string:
  "parse_details sp name details d = Some c \<Longrightarrow> address d \<noteq> Some [] \<Longrightarrow> postal_code d \<noteq> Some [] \<Longrightarrow>
   address c \<noteq> Some [] \<and> postal_code c \<noteq> Some []"
proof (induction details arbitrary: d)
  case Nil
  then show ?case by simp
next
  case (Cons x xs)
  let ?d = "parse_detail sp name (strip (get_text x)) d"
  from Cons.prems(1) have "parse_details sp name xs ?d = Some c"
    by (simp add: Let_def split: if_splits)
  moreover have "address ?d \<noteq> Some []" using Cons.prems(2) by (rule parse_detail_address)
  moreover have "postal_code ?d \<noteq> Some []" using Cons.prems(3) by (rule parse_detail_postal_code)
  ultimately show ?case by (rule Cons.IH)
qed

lemma parse_company_result_no_empty_string:
  assumes "parse_company_result sp now el = Inr (Some c)"
  shows "address c \<noteq> Some [] \<and> postal_code c \<noteq> Some []"
proof (cases el)
  case (Text s)
  then show ?thesis using assms by (simp add: parse_company_result_def split: if_splits)
next
  case (Tag n cs as ch)
  from assms Tag obtain name d where "parse_details sp name (find_all ''p'' el) d = Some c"
     and "address d = None" "postal_code d = None"
    by (auto simp: parse_company_result_def Let_def split: option.splits if_splits)
  then show ?thesis using parse_details_no_empty_string[of sp name "find_all ''p'' el" d c] by simp
qed

lemma supplies_iff: "v \<noteq> Some [] \<Longrightarrow> supplies v \<longleftrightarrow> v \<noteq> None"
  by (simp add: supplies_def)

lemma coalesce_eq: "coalesce a b = (case a of None \<Rightarrow> b | Some x \<Rightarrow> Some x)"
  by (cases a) auto

text \<open>The effect of one call on the committed table.\<close>

lemma save_company_with_committed:
  assumes "pending db = committed db"
  shows "committed (snd (save_company_with do_update f now c db)) =
     (if f = No_fault then
        (committed db)(company_number c \<mapsto>
           (case committed db (company_number c) of
              None \<Rightarrow> values_row (id_seq db) now c
            | Some old \<Rightarrow> do_update now (values_row (id_seq db) now c) old))
      else committed db)"
  using assms
  by (cases f) (simp_all add: save_company_with_def execute_insert_def commit_def rollback_def Let_def)

lemma save_company_with_idle:
  assumes "pending db = committed db"
  shows "pending (snd (save_company_with do_update f now c db))
       = committed (snd (save_company_with do_update f now c db))"
  using assms
  by (cases f) (simp_all add: save_company_with_def execute_insert_def commit_def rollback_def Let_def)

lemma save_company_with_result:
  "fst (save_company_with do_update f now c db) =
     (case f of No_fault \<Rightarrow> Inr True | Statement_fault \<Rightarrow> Inr False | Connection_fault \<Rightarrow> Inl InterfaceError)"
  by (cases f) (simp_all add: save_company_with_def execute_insert_def Let_def)

text \<open>
  C1. A candidate that the parser produced is written over a row that is stored under
  its \<^verbatim>\<open>company_number\<close>. After the call the stored \<^verbatim>\<open>address\<close> is the candidate's
  when the call succeeds and the candidate supplies a non-empty value, and the old one
  otherwise; likewise \<^verbatim>\<open>postal_code\<close>. (The parser sets the two keys to non-empty
  strings or leaves them out, and \<^verbatim>\<open>COALESCE\<close> keeps the stored value for a key
  that is left out.)
\<close>

theorem save_company_to_db_fills_gaps:
  assumes "parse_company_result sp t el = Inr (Some c)"
      and "committed db (company_number c) = Some old" and "pending db = committed db"
  shows "\<exists>new. committed (snd (save_company_to_db f now (c\<lparr>sector_keyword := Some sector\<rparr>) db))
                 (company_number c) = Some new
     \<and> row_address new = (if f = No_fault \<and> supplies (address c) then address c else row_address old)
     \<and> row_postal_code new =
         (if f = No_fault \<and> supplies (postal_code c) then postal_code c else row_postal_code old)"
proof -
  from parse_company_result_no_empty_string[OF assms(1)]
  have s: "supplies (address c) \<longleftrightarrow> address c \<noteq> None" "supplies (postal_code c) \<longleftrightarrow> postal_code c \<noteq> None"
    by (simp_all add: supplies_iff)
  show ?thesis
    unfolding save_company_to_db_def save_company_with_committed[OF assms(3)] s
    using assms(2)
    by (auto simp: on_conflict_update_def values_row_def)
qed


theorem save_company_to_db_fills_gaps_witness:
  "parse_company_result no_strptime 0 example_result = Inr (Some example_company)
   \<and> parse_company_result no_strptime 0 example_result_no_address = Inr (Some example_company_no_address)
   \<and> committed example_connection ''12345678'' = Some example_stored_row
   \<and> (\<exists>new. committed (snd (save_company_to_db No_fault 9
                 (example_company\<lparr>sector_keyword := Some ''technology''\<rparr>) example_connection))
               ''12345678'' = Some new
          \<and> row_address new = Some ''1 High Street, London, SW1A 1AA''
          \<and> row_postal_code new = Some ''SW1A 1AA'')
   \<and> (\<exists>new. committed (snd (save_company_to_db No_fault 9
                 (example_company_no_address\<lparr>sector_keyword := Some ''technology''\<rparr>) example_connection))
               ''12345678'' = Some new
          \<and> row_address new = Some ''2 Low Road, Leeds, LS1 1AA''
          \<and> row_postal_code new = Some ''LS1 1AA'')"
proof -
  have p1: "parse_company_result no_strptime 0 example_result = Inr (Some example_company)"
    by code_simp
  have p2: "parse_company_result no_strptime 0 example_result_no_address = Inr (Some example_company_no_address)"
    by code_simp
  have n: "company_number example_company = ''12345678''"
          "company_number example_company_no_address = ''12345678''"
    by (simp_all add: example_company_def example_company_no_address_def)
  have h: "committed example_connection ''12345678'' = Some example_stored_row"
    by (simp add: example_connection_def)
  have i: "pending example_connection = committed example_connection"
    by (simp add: example_connection_def)
  have s: "address example_company_no_address = None"
          "postal_code example_company_no_address = None"
          "address example_company = Some ''1 High Street, London, SW1A 1AA''"
          "postal_code example_company = Some ''SW1A 1AA''"
          "row_address example_stored_row = Some ''2 Low Road, Leeds, LS1 1AA''"
          "row_postal_code example_stored_row = Some ''LS1 1AA''"
    by (simp_all add: supplies_def example_company_def example_company_no_address_def
          example_stored_row_def)
  from save_company_to_db_fills_gaps[OF p1 h[folded n(1)] i, of No_fault 9 "''technology''"]
  have a: "\<exists>new. committed (snd (save_company_to_db No_fault 9
                 (example_company\<lparr>sector_keyword := Some ''technology''\<rparr>) example_connection))
               ''12345678'' = Some new
          \<and> row_address new = Some ''1 High Street, London, SW1A 1AA''
          \<and> row_postal_code new = Some ''SW1A 1AA''"
    by (simp add: n s supplies_def)
  from save_company_to_db_fills_gaps[OF p2 h[folded n(2)] i, of No_fault 9 "''technology''"]
  have b: "\<exists>new. committed (snd (save_company_to_db No_fault 9
                 (example_company_no_address\<lparr>sector_keyword := Some ''technology''\<rparr>) example_connection))
               ''12345678'' = Some new
          \<and> row_address new = Some ''2 Low Road, Leeds, LS1 1AA''
          \<and> row_postal_code new = Some ''LS1 1AA''"
    by (simp add: n s supplies_def)
  from p1 p2 h a b show ?thesis by blast
qed

text \<open>
  Outside what the parser produces, \<^verbatim>\<open>COALESCE\<close> tests for \<^verbatim>\<open>NULL\<close> only: a
  dictionary whose \<^verbatim>\<open>address\<close> is the empty string replaces the stored address by it.
\<close>

lemma save_company_to_db_empty_string:
  "\<exists>new. committed (snd (save_company_to_db No_fault 9 (example_company\<lparr>address := Some []\<rparr>)
              example_connection)) ''12345678'' = Some new
     \<and> row_address new = Some []"
  by (simp add: save_company_to_db_def save_company_with_committed example_connection_def
        example_company_def on_conflict_update_def values_row_def)

text \<open>
  \<^verbatim>\<open>db_scraper.py\<close>, the predecessor, assigns \<^verbatim>\<open>EXCLUDED.address\<close> without
  \<^verbatim>\<open>COALESCE\<close>: a candidate without an address erases the stored one.
\<close>

lemma save_company_to_db_db_scraper_erases:
  "\<exists>new. committed (snd (save_company_to_db_db_scraper No_fault 9 example_company_no_address
              example_connection)) ''12345678'' = Some new
     \<and> row_address new = None \<and> row_postal_code new = None"
  by (simp add: save_company_to_db_db_scraper_def save_company_with_committed example_connection_def
        example_company_def example_company_no_address_def on_conflict_update_db_scraper_def
        values_row_def)

text \<open>
  C5. When a row is stored under the candidate's \<^verbatim>\<open>company_number\<close>, a call of
  \<^verbatim>\<open>save_company_to_db\<close> (of either file, whatever happens in the database) leaves
  \<^verbatim>\<open>company_type\<close>, \<^verbatim>\<open>date_of_creation\<close> and \<^verbatim>\<open>sector_keyword\<close> of the stored row as
  they were: the row after the call differs from the row before at most in
  \<^verbatim>\<open>company_name\<close>, \<^verbatim>\<open>address\<close>, \<^verbatim>\<open>postal_code\<close>, \<^verbatim>\<open>last_checked_at\<close> and
  \<^verbatim>\<open>updated_at\<close>.
\<close>

theorem save_company_to_db_conflict_frame:
  assumes "committed db (company_number c) = Some old" and "pending db = committed db"
      and "save = save_company_to_db \<or> save = save_company_to_db_db_scraper"
  shows "\<exists>new. committed (snd (save f now c db)) (company_number c) = Some new
     \<and> row_company_type new = row_company_type old
     \<and> row_date_of_creation new = row_date_of_creation old
     \<and> row_sector_keyword new = row_sector_keyword old
     \<and> new\<lparr>row_company_name := row_company_name old, row_address := row_address old,
            row_postal_code := row_postal_code old, row_last_checked_at := row_last_checked_at old,
            row_updated_at := row_updated_at old\<rparr> = old"
  using assms(3,1)
  by (auto simp: save_company_to_db_def save_company_to_db_db_scraper_def
        save_company_with_committed[OF assms(2)] on_conflict_update_def
        on_conflict_update_db_scraper_def)

theorem save_company_to_db_conflict_frame_witness:
  "committed example_connection ''12345678'' = Some example_stored_row
   \<and> (\<exists>new. committed (snd (save_company_to_db No_fault 9
                 (example_company\<lparr>sector_keyword := Some ''technology''\<rparr>) example_connection))
               ''12345678'' = Some new
          \<and> row_company_type new = Some ''plc''
          \<and> row_date_of_creation new = Some (Date_obj (2019, 2, 2))
          \<and> row_sector_keyword new = Some ''finance'')"
proof -
  let ?c = "example_company\<lparr>sector_keyword := Some ''technology''\<rparr>"
  have n: "company_number ?c = ''12345678''" by (simp add: example_company_def)
  have h: "committed example_connection ''12345678'' = Some example_stored_row"
    by (simp add: example_connection_def)
  have i: "pending example_connection = committed example_connection"
    by (simp add: example_connection_def)
  have s: "row_company_type example_stored_row = Some ''plc''"
          "row_date_of_creation example_stored_row = Some (Date_obj (2019, 2, 2))"
          "row_sector_keyword example_stored_row = Some ''finance''"
    by (simp_all add: example_stored_row_def)
  from save_company_to_db_conflict_frame[where save = save_company_to_db and c = ?c
         and f = No_fault and now = 9, OF h[folded n] i]
  obtain new where "committed (snd (save_company_to_db No_fault 9 ?c example_connection))
               (company_number ?c) = Some new"
     "row_company_type new = row_company_type example_stored_row"
     "row_date_of_creation new = row_date_of_creation example_stored_row"
     "row_sector_keyword new = row_sector_keyword example_stored_row"
    by blast
  then show ?thesis using h by (simp only: n s) blast
qed

subsection \<open>The drivers: requests\<close>

lemma save_page_requests [simp]: "requests (snd (save_page e sector companies st)) = requests st"
  by (induction companies arbitrary: st) (auto simp: Let_def split: prod.splits sum.splits)

lemma scrape_pages_requests:
  assumes "(q, p) \<in> set (requests (snd (scrape_pages e sector [k..m] st)))"
  shows "(q, p) \<in> set (requests st)
       \<or> (q = sector \<and> k \<le> p \<and> p \<le> m \<and> (k < p \<longrightarrow> search_companies e sector (p - 1) \<noteq> []))"
  using assms
proof (induction k m arbitrary: st rule: upto.induct)
  case (1 i j)
  show ?case
  proof (cases "i \<le> j")
    case False
    then show ?thesis using "1.prems" by simp
  next
    case True
    then have u: "[i..j] = i # [i + 1..j]" by (simp add: upto.simps)
    let ?st1 = "st\<lparr>requests := requests st @ [(sector, i)]\<rparr>"
    show ?thesis
    proof (cases "search_companies e sector i = []")
      case True
      then have "snd (scrape_pages e sector [i..j] st) = ?st1" by (simp add: u Let_def)
      then show ?thesis using "1.prems" \<open>i \<le> j\<close> by auto
    next
      case False
      obtain ex st2 where sp: "save_page e sector (search_companies e sector i) ?st1 = (ex, st2)"
        by (cases "save_page e sector (search_companies e sector i) ?st1")
      then have r2: "requests st2 = requests st @ [(sector, i)]"
        using save_page_requests[of e sector "search_companies e sector i" ?st1] by simp
      show ?thesis
      proof (cases ex)
        case (Some x)
        then have "snd (scrape_pages e sector [i..j] st) = st2" using False sp by (simp add: u Let_def)
        then show ?thesis using "1.prems" r2 \<open>i \<le> j\<close> by auto
      next
        case None
        then have "snd (scrape_pages e sector [i..j] st) = snd (scrape_pages e sector [i + 1..j] st2)"
          using False sp by (simp add: u Let_def)
        then have "(q, p) \<in> set (requests (snd (scrape_pages e sector [i + 1..j] st2)))"
          using "1.prems" by simp
        from "1.IH"[OF True this]
        consider "(q, p) \<in> set (requests st2)"
          | "q = sector" "i + 1 \<le> p" "p \<le> j" "i + 1 < p \<longrightarrow> search_companies e sector (p - 1) \<noteq> []"
          by blast
        then show ?thesis
        proof cases
          case 1
          then show ?thesis using r2 \<open>i \<le> j\<close> by auto
        next
          case 2
          have "search_companies e sector (p - 1) \<noteq> []"
          proof (cases "p = i + 1")
            case True
            then show ?thesis using False by simp
          next
            case False
            then show ?thesis using 2 by simp
          qed
          then show ?thesis using 2 by simp
        qed
      qed
    qed
  qed
qed

lemma scrape_sectors_requests:
  assumes "(q, p) \<in> set (requests (snd (scrape_sectors e m sectors st)))"
  shows "(q, p) \<in> set (requests st)
       \<or> (1 \<le> p \<and> p \<le> m \<and> (1 < p \<longrightarrow> search_companies e q (p - 1) \<noteq> []))"
  using assms
proof (induction sectors arbitrary: st)
  case Nil
  then show ?case by simp
next
  case (Cons sector sectors)
  obtain ex st1 where sp: "scrape_pages e sector [1..m] (st\<lparr>sector_count := 0\<rparr>) = (ex, st1)"
    by (cases "scrape_pages e sector [1..m] (st\<lparr>sector_count := 0\<rparr>)")
  have st1: "(q, p) \<in> set (requests st1) \<Longrightarrow> ?case"
  proof -
    assume "(q, p) \<in> set (requests st1)"
    then have "(q, p) \<in> set (requests (snd (scrape_pages e sector [1..m] (st\<lparr>sector_count := 0\<rparr>))))"
      using sp by simp
    from scrape_pages_requests[OF this] show ?case by auto
  qed
  show ?case
  proof (cases ex)
    case (Some x)
    then have "snd (scrape_sectors e m (sector # sectors) st) = st1" using sp by simp
    then show ?thesis using Cons.prems st1 by simp
  next
    case None
    let ?st2 = "st1\<lparr>sector_stats := (sector_stats st1)(sector \<mapsto> sector_count st1)\<rparr>"
    from None have "snd (scrape_sectors e m (sector # sectors) st) = snd (scrape_sectors e m sectors ?st2)"
      using sp by simp
    then have "(q, p) \<in> set (requests (snd (scrape_sectors e m sectors ?st2)))" using Cons.prems by simp
    from Cons.IH[OF this] show ?thesis using st1 by auto
  qed
qed

lemma add_companies_requests [simp]:
  "simple_requests (add_companies sector companies st) = simple_requests st"
  by (induction companies arbitrary: st) auto

lemma simple_scrape_pages_requests:
  assumes "(q, p) \<in> set (simple_requests (simple_scrape_pages e sector [k..m] st))"
  shows "(q, p) \<in> set (simple_requests st)
       \<or> (q = sector \<and> k \<le> p \<and> p \<le> m \<and> (k < p \<longrightarrow> simple_search_companies e sector (p - 1) \<noteq> []))"
  using assms
proof (induction k m arbitrary: st rule: upto.induct)
  case (1 i j)
  show ?case
  proof (cases "i \<le> j")
    case False
    then show ?thesis using "1.prems" by simp
  next
    case True
    then have u: "[i..j] = i # [i + 1..j]" by (simp add: upto.simps)
    let ?st1 = "st\<lparr>simple_requests := simple_requests st @ [(sector, i)]\<rparr>"
    show ?thesis
    proof (cases "simple_search_companies e sector i = []")
      case True
      then have "simple_scrape_pages e sector [i..j] st = ?st1" by (simp add: u Let_def)
      then show ?thesis using "1.prems" \<open>i \<le> j\<close> by auto
    next
      case False
      let ?st2 = "add_companies sector (simple_search_companies e sector i) ?st1"
      have r2: "simple_requests ?st2 = simple_requests st @ [(sector, i)]"
        by (simp add: add_companies_requests)
      have "simple_scrape_pages e sector [i..j] st = simple_scrape_pages e sector [i + 1..j] ?st2"
        using False by (simp add: u Let_def)
      then have "(q, p) \<in> set (simple_requests (simple_scrape_pages e sector [i + 1..j] ?st2))"
        using "1.prems" by simp
      from "1.IH"[OF True this]
      consider "(q, p) \<in> set (simple_requests ?st2)"
        | "q = sector" "i + 1 \<le> p" "p \<le> j"
          "i + 1 < p \<longrightarrow> simple_search_companies e sector (p - 1) \<noteq> []"
        by blast
      then show ?thesis
      proof cases
        case 1
        then show ?thesis using r2 \<open>i \<le> j\<close> by auto
      next
        case 2
        have "simple_search_companies e sector (p - 1) \<noteq> []"
        proof (cases "p = i + 1")
          case True
          then show ?thesis using False by simp
        next
          case False
          then show ?thesis using 2 by simp
        qed
        then show ?thesis using 2 by simp
      qed
    qed
  qed
qed

lemma simple_scrape_sectors_requests:
  assumes "(q, p) \<in> set (simple_requests (simple_scrape_sectors e m sectors st))"
  shows "(q, p) \<in> set (simple_requests st)
       \<or> (1 \<le> p \<and> p \<le> m \<and> (1 < p \<longrightarrow> simple_search_companies e q (p - 1) \<noteq> []))"
  using assms
proof (induction sectors arbitrary: st)
  case Nil
  then show ?case by simp
next
  case (Cons sector sectors)
  let ?st1 = "simple_scrape_pages e sector [1..m] st"
  from Cons.prems have "(q, p) \<in> set (simple_requests (simple_scrape_sectors e m sectors ?st1))"
    by simp
  from Cons.IH[OF this] show ?case
  proof
    assume "(q, p) \<in> set (simple_requests ?st1)"
    from simple_scrape_pages_requests[OF this] show ?thesis by auto
  qed simp
qed

lemma search_companies_fetch_None: "fetch e query page = None \<Longrightarrow> search_companies e query page = []"
  by (simp add: search_companies_def)

lemma simple_search_companies_fetch_None:
  "fetch e query page = None \<Longrightarrow> simple_search_companies e query page = []"
  by (simp add: simple_search_companies_def)

subsection \<open>The drivers: duplicates\<close>

lemma add_companies_distinct:
  assumes "distinct (map company_number (all_companies st))"
      and "set (map company_number (all_companies st)) \<subseteq> seen_companies st"
  shows "distinct (map company_number (all_companies (add_companies sector companies st)))
       \<and> set (map company_number (all_companies (add_companies sector companies st)))
           \<subseteq> seen_companies (add_companies sector companies st)"
  using assms
proof (induction companies arbitrary: st)
  case Nil
  then show ?case by simp
next
  case (Cons c cs)
  show ?case
  proof (cases "company_number c \<noteq> [] \<and> company_number c \<notin> seen_companies st")
    case False
    then have "add_companies sector (c # cs) st = add_companies sector cs st" by auto
    then show ?thesis using Cons.IH[OF Cons.prems] by simp
  next
    case True
    let ?st = "st\<lparr>seen_companies := insert (company_number c) (seen_companies st),
              all_companies := all_companies st @ [c\<lparr>sector_keyword := Some sector\<rparr>]\<rparr>"
    have eq: "add_companies sector (c # cs) st = add_companies sector cs ?st" using True by simp
    have "company_number c \<notin> set (map company_number (all_companies st))"
      using True Cons.prems(2) by blast
    then have d: "distinct (map company_number (all_companies ?st))" using Cons.prems(1) by simp
    have s: "set (map company_number (all_companies ?st)) \<subseteq> seen_companies ?st"
      using Cons.prems(2) by auto
    from Cons.IH[OF d s] show ?thesis unfolding eq .
  qed
qed

lemma add_companies_nonempty:
  "[] \<notin> set (map company_number (all_companies st)) \<Longrightarrow>
   [] \<notin> set (map company_number (all_companies (add_companies sector companies st)))"
proof (induction companies arbitrary: st)
  case Nil
  then show ?case by simp
next
  case (Cons c cs)
  show ?case
  proof (cases "company_number c \<noteq> [] \<and> company_number c \<notin> seen_companies st")
    case False
    then have "add_companies sector (c # cs) st = add_companies sector cs st" by auto
    then show ?thesis using Cons.IH[OF Cons.prems] by simp
  next
    case True
    let ?st = "st\<lparr>seen_companies := insert (company_number c) (seen_companies st),
              all_companies := all_companies st @ [c\<lparr>sector_keyword := Some sector\<rparr>]\<rparr>"
    have eq: "add_companies sector (c # cs) st = add_companies sector cs ?st" using True by simp
    have "[] \<notin> set (map company_number (all_companies ?st))" using True Cons.prems by auto
    from Cons.IH[OF this] show ?thesis unfolding eq .
  qed
qed

lemma add_companies_inv: "dedup_inv st \<Longrightarrow> dedup_inv (add_companies sector companies st)"
  unfolding dedup_inv_def using add_companies_distinct add_companies_nonempty by blast

lemma simple_scrape_pages_inv: "dedup_inv st \<Longrightarrow> dedup_inv (simple_scrape_pages e sector pages st)"
proof (induction pages arbitrary: st)
  case Nil
  then show ?case by simp
next
  case (Cons page pages)
  let ?st1 = "st\<lparr>simple_requests := simple_requests st @ [(sector, page)]\<rparr>"
  have i1: "dedup_inv ?st1" using Cons.prems by (simp add: dedup_inv_def)
  show ?case
  proof (cases "simple_search_companies e sector page = []")
    case True
    then show ?thesis using i1 by (simp add: Let_def)
  next
    case False
    then have "simple_scrape_pages e sector (page # pages) st
       = simple_scrape_pages e sector pages (add_companies sector (simple_search_companies e sector page) ?st1)"
      by (simp add: Let_def)
    then show ?thesis using Cons.IH[OF add_companies_inv[OF i1]] by simp
  qed
qed

lemma simple_scrape_sectors_inv: "dedup_inv st \<Longrightarrow> dedup_inv (simple_scrape_sectors e m sectors st)"
  by (induction sectors arbitrary: st) (simp_all add: simple_scrape_pages_inv)

lemma scrape_companies_by_sector_inv: "dedup_inv (scrape_companies_by_sector_run e sectors m)"
  unfolding scrape_companies_by_sector_run_def
  by (rule simple_scrape_sectors_inv) (simp add: dedup_inv_def)

lemma save_page_upserts:
  "fst (save_page e sector companies st) = None \<Longrightarrow>
   upserts (snd (save_page e sector companies st))
     = upserts st @ map (\<lambda>c. c\<lparr>sector_keyword := Some sector\<rparr>) companies"
proof (induction companies arbitrary: st)
  case Nil
  then show ?case by simp
next
  case (Cons c cs)
  let ?c = "c\<lparr>sector_keyword := Some sector\<rparr>"
  let ?k = "length (upserts st)"
  obtain r db1 where sv: "save_company_to_db (db_fault e ?k) (db_now e ?k) ?c (conn st) = (r, db1)"
    by (cases "save_company_to_db (db_fault e ?k) (db_now e ?k) ?c (conn st)")
  show ?case
  proof (cases r)
    case (Inl ex)
    then have "fst (save_page e sector (c # cs) st) = Some ex" using sv by (simp add: Let_def)
    then show ?thesis using Cons.prems by simp
  next
    case (Inr saved)
    let ?st = "if saved
                then st\<lparr>conn := db1, upserts := upserts st @ [?c],
                        sector_count := sector_count st + 1, total_saved := total_saved st + 1\<rparr>
                else st\<lparr>conn := db1, upserts := upserts st @ [?c]\<rparr>"
    have eq: "save_page e sector (c # cs) st = save_page e sector cs ?st"
      using sv Inr by (simp add: Let_def)
    then have "fst (save_page e sector cs ?st) = None" using Cons.prems by simp
    from Cons.IH[OF this] show ?thesis unfolding eq by simp
  qed
qed

lemma scrape_pages_upserts:
  "fst (scrape_pages e sector pages st) = None \<Longrightarrow>
   \<exists>reqs. requests (snd (scrape_pages e sector pages st)) = requests st @ reqs
     \<and> upserts (snd (scrape_pages e sector pages st))
         = upserts st @ concat (map (\<lambda>(s, p). map (\<lambda>c. c\<lparr>sector_keyword := Some s\<rparr>)
                                              (search_companies e s p)) reqs)"
proof (induction pages arbitrary: st)
  case Nil
  then show ?case by simp
next
  case (Cons page pages)
  let ?st1 = "st\<lparr>requests := requests st @ [(sector, page)]\<rparr>"
  let ?f = "\<lambda>(s, p). map (\<lambda>c. c\<lparr>sector_keyword := Some s\<rparr>) (search_companies e s p)"
  show ?case
  proof (cases "search_companies e sector page = []")
    case True
    then have eq: "snd (scrape_pages e sector (page # pages) st) = ?st1" by (simp add: Let_def)
    have "requests ?st1 = requests st @ [(sector, page)]
        \<and> upserts ?st1 = upserts st @ concat (map ?f [(sector, page)])"
      using True by simp
    then show ?thesis unfolding eq by blast
  next
    case False
    obtain ex st2 where sp: "save_page e sector (search_companies e sector page) ?st1 = (ex, st2)"
      by (cases "save_page e sector (search_companies e sector page) ?st1")
    show ?thesis
    proof (cases ex)
      case (Some x)
      then have "fst (scrape_pages e sector (page # pages) st) = Some x"
        using False sp by (simp add: Let_def)
      then show ?thesis using Cons.prems by simp
    next
      case None
      then have eq: "scrape_pages e sector (page # pages) st = scrape_pages e sector pages st2"
        using False sp by (simp add: Let_def)
      have r2: "requests st2 = requests st @ [(sector, page)]"
        using save_page_requests[of e sector "search_companies e sector page" ?st1] sp by simp
      have u2: "upserts st2 = upserts st @ ?f (sector, page)"
        using save_page_upserts[of e sector "search_companies e sector page" ?st1] sp None by simp
      from Cons.prems eq have "fst (scrape_pages e sector pages st2) = None" by simp
      from Cons.IH[OF this] obtain reqs where
        "requests (snd (scrape_pages e sector pages st2)) = requests st2 @ reqs"
        "upserts (snd (scrape_pages e sector pages st2)) = upserts st2 @ concat (map ?f reqs)"
        by blast
      then have "requests (snd (scrape_pages e sector pages st2)) = requests st @ ((sector, page) # reqs)
        \<and> upserts (snd (scrape_pages e sector pages st2)) = upserts st @ concat (map ?f ((sector, page) # reqs))"
        using r2 u2 by simp
      then show ?thesis unfolding eq by blast
    qed
  qed
qed

lemma scrape_sectors_upserts:
  "fst (scrape_sectors e m sectors st) = None \<Longrightarrow>
   \<exists>reqs. requests (snd (scrape_sectors e m sectors st)) = requests st @ reqs
     \<and> upserts (snd (scrape_sectors e m sectors st))
         = upserts st @ concat (map (\<lambda>(s, p). map (\<lambda>c. c\<lparr>sector_keyword := Some s\<rparr>)
                                              (search_companies e s p)) reqs)"
proof (induction sectors arbitrary: st)
  case Nil
  then show ?case by simp
next
  case (Cons sector sectors)
  let ?f = "\<lambda>(s, p). map (\<lambda>c. c\<lparr>sector_keyword := Some s\<rparr>) (search_companies e s p)"
  let ?st0 = "st\<lparr>sector_count := 0\<rparr>"
  obtain ex st1 where sp: "scrape_pages e sector [1..m] ?st0 = (ex, st1)"
    by (cases "scrape_pages e sector [1..m] ?st0")
  show ?case
  proof (cases ex)
    case (Some x)
    then have "fst (scrape_sectors e m (sector # sectors) st) = Some x" using sp by simp
    then show ?thesis using Cons.prems by simp
  next
    case None
    let ?st2 = "st1\<lparr>sector_stats := (sector_stats st1)(sector \<mapsto> sector_count st1)\<rparr>"
    from None have eq: "scrape_sectors e m (sector # sectors) st = scrape_sectors e m sectors ?st2"
      using sp by simp
    from None sp have "fst (scrape_pages e sector [1..m] ?st0) = None" by simp
    from scrape_pages_upserts[OF this] sp obtain r1 where
      r1: "requests st1 = requests st @ r1" "upserts st1 = upserts st @ concat (map ?f r1)"
      by auto
    from Cons.prems eq have "fst (scrape_sectors e m sectors ?st2) = None" by simp
    from Cons.IH[OF this] obtain r2 where
      "requests (snd (scrape_sectors e m sectors ?st2)) = requests ?st2 @ r2"
      "upserts (snd (scrape_sectors e m sectors ?st2)) = upserts ?st2 @ concat (map ?f r2)"
      by blast
    then have "requests (snd (scrape_sectors e m sectors ?st2)) = requests st @ (r1 @ r2)
      \<and> upserts (snd (scrape_sectors e m sectors ?st2)) = upserts st @ concat (map ?f (r1 @ r2))"
      using r1 by simp
    then show ?thesis unfolding eq by blast
  qed
qed

subsection \<open>Failures of the database\<close>

lemma save_company_with_statement_fault:
  "save_company_with do_update Statement_fault now c db = (Inr False, db\<lparr>pending := committed db\<rparr>)"
  by (simp add: save_company_with_def rollback_def)

lemma save_company_with_connection_fault:
  "save_company_with do_update Connection_fault now c db = (Inl InterfaceError, db)"
  by (simp add: save_company_with_def)

lemma save_company_with_keeps_rows:
  assumes "pending db = committed db" "committed db k \<noteq> None"
  shows "committed (snd (save_company_with do_update f now c db)) k \<noteq> None"
  using assms(2) by (simp add: save_company_with_committed[OF assms(1)])

lemma save_page_continues:
  assumes "\<forall>k. db_fault e k \<noteq> Connection_fault"
  shows "fst (save_page e sector companies st) = None
       \<and> total_saved (snd (save_page e sector companies st))
           = total_saved st + int (length (filter (\<lambda>k. db_fault e k = No_fault)
                 [length (upserts st)..<length (upserts st) + length companies]))"
proof (induction companies arbitrary: st)
  case Nil
  then show ?case by simp
next
  case (Cons c cs)
  let ?c = "c\<lparr>sector_keyword := Some sector\<rparr>"
  let ?k = "length (upserts st)"
  let ?db = "snd (save_company_to_db (db_fault e ?k) (db_now e ?k) ?c (conn st))"
  have u: "[?k..<Suc (?k + length cs)] = ?k # [Suc ?k..<Suc (?k + length cs)]"
    using upt_rec[of ?k "Suc (?k + length cs)"] by simp
  show ?case
  proof (cases "db_fault e ?k")
    case No_fault
    let ?st = "st\<lparr>conn := ?db, upserts := upserts st @ [?c],
                  sector_count := sector_count st + 1, total_saved := total_saved st + 1\<rparr>"
    have "save_page e sector (c # cs) st = save_page e sector cs ?st"
      using No_fault
      by (simp add: Let_def save_company_to_db_def save_company_with_def execute_insert_def
            split: prod.splits)
    then show ?thesis using Cons.IH[of ?st] No_fault by (simp add: u del: upt_Suc)
  next
    case Statement_fault
    let ?st = "st\<lparr>conn := ?db, upserts := upserts st @ [?c]\<rparr>"
    have "save_page e sector (c # cs) st = save_page e sector cs ?st"
      using Statement_fault
      by (simp add: Let_def save_company_to_db_def save_company_with_def)
    then show ?thesis using Cons.IH[of ?st] Statement_fault by (simp add: u del: upt_Suc)
  next
    case Connection_fault
    then show ?thesis using assms by simp
  qed
qed

subsection \<open>The example run\<close>

lemma example_search:
  "search_companies example_env ''technology'' 1 = [company_A]"
  "search_companies example_env ''technology'' 2 = [company_A, company_C]"
  "search_companies example_env ''finance'' 1 = [company_A]"
  "search_companies example_env ''finance'' 2 = []"
  by code_simp+

lemma example_simple_search:
  "simple_search_companies example_env ''technology'' 1 = [company_A\<lparr>company_type := None, date_of_creation := Some (Date_str ''1 January 2020'')\<rparr>]"
  "simple_search_companies example_env ''technology'' 2 = [company_A\<lparr>company_type := None, date_of_creation := Some (Date_str ''1 January 2020'')\<rparr>, company_C\<lparr>company_type := None, date_of_creation := Some (Date_str ''2 February 2019'')\<rparr>]"
  "simple_search_companies example_env ''finance'' 1 = [company_A\<lparr>company_type := None, date_of_creation := Some (Date_str ''1 January 2020'')\<rparr>]"
  "simple_search_companies example_env ''finance'' 2 = []"
  by code_simp+

lemma search_companies_db_fault [simp]:
  "search_companies (e\<lparr>db_fault := f\<rparr>) = search_companies e"
  by (intro ext) (simp add: search_companies_def cong: option.case_cong)

lemma upto_1_2: "[1..2::int] = [1, 2]"
  by (simp add: upto.simps)

lemma example_env_fields [simp]:
  "db_fault example_env = (\<lambda>k. No_fault)" "db_now example_env = (\<lambda>k. k)"
  "fetch example_env = example_fetch"
  by (simp_all add: example_env_def)

lemmas example_run_simps = scrape_and_save_def upto_1_2 example_search Let_def save_company_to_db_def
        save_company_with_def execute_insert_def

lemma example_run:
  "fst (scrape_and_save example_env [''technology'', ''finance''] 2 empty_connection) = None"
  "requests (snd (scrape_and_save example_env [''technology'', ''finance''] 2 empty_connection))
     = [(''technology'', 1), (''technology'', 2), (''finance'', 1), (''finance'', 2)]"
  "map company_number (upserts (snd (scrape_and_save example_env [''technology'', ''finance''] 2 empty_connection)))
     = [''123'', ''123'', ''789'', ''123'']"
  "total_saved (snd (scrape_and_save example_env [''technology'', ''finance''] 2 empty_connection)) = 4"
  "sector_stats (snd (scrape_and_save example_env [''technology'', ''finance''] 2 empty_connection)) ''technology'' = Some 3"
  by (simp_all add: example_run_simps company_A_def company_C_def)

lemma example_simple_run:
  "simple_requests (scrape_companies_by_sector_run example_env [''technology'', ''finance''] 2)
     = [(''technology'', 1), (''technology'', 2), (''finance'', 1), (''finance'', 2)]"
  "map company_number (scrape_companies_by_sector example_env [''technology'', ''finance''] 2)
     = [''123'', ''789'']"
  by (simp_all add: scrape_companies_by_sector_def scrape_companies_by_sector_run_def upto_1_2
        example_simple_search Let_def company_A_def company_C_def)

text \<open>
  C6. In a run of \<^verbatim>\<open>scrape_and_save\<close>, and in a run of
  \<^verbatim>\<open>scrape_companies_by_sector\<close>: when page \<open>n\<close> of a sector yields no candidate, be
  it that the request failed, page \<open>n + 1\<close> of that sector is never requested; and
  every page requested lies between 1 and \<^verbatim>\<open>max_pages\<close>. (The answer of the site
  to a query and a page is taken to be the same throughout a run.)
\<close>

theorem pagination_stops:
  "(1 \<le> n \<and> (search_companies e sector n = [] \<or> fetch e sector n = None)
      \<longrightarrow> (sector, n + 1) \<notin> set (requests (snd (scrape_and_save e sectors max_pages db))))
   \<and> ((sector, page) \<in> set (requests (snd (scrape_and_save e sectors max_pages db)))
      \<longrightarrow> 1 \<le> page \<and> page \<le> max_pages)
   \<and> (1 \<le> n \<and> (simple_search_companies e sector n = [] \<or> fetch e sector n = None)
      \<longrightarrow> (sector, n + 1) \<notin> set (simple_requests (scrape_companies_by_sector_run e sectors max_pages)))
   \<and> ((sector, page) \<in> set (simple_requests (scrape_companies_by_sector_run e sectors max_pages))
      \<longrightarrow> 1 \<le> page \<and> page \<le> max_pages)"
proof -
  have a: "1 \<le> p \<and> p \<le> max_pages \<and> (1 < p \<longrightarrow> search_companies e q (p - 1) \<noteq> [])"
    if "(q, p) \<in> set (requests (snd (scrape_and_save e sectors max_pages db)))" for q p
    using scrape_sectors_requests[OF that[unfolded scrape_and_save_def]] by simp
  have b: "1 \<le> p \<and> p \<le> max_pages \<and> (1 < p \<longrightarrow> simple_search_companies e q (p - 1) \<noteq> [])"
    if "(q, p) \<in> set (simple_requests (scrape_companies_by_sector_run e sectors max_pages))" for q p
    using simple_scrape_sectors_requests[OF that[unfolded scrape_companies_by_sector_run_def]] by simp
  show ?thesis
  proof (intro conjI impI)
    assume h: "1 \<le> n \<and> (search_companies e sector n = [] \<or> fetch e sector n = None)"
    then have "search_companies e sector n = []" using search_companies_fetch_None by blast
    then show "(sector, n + 1) \<notin> set (requests (snd (scrape_and_save e sectors max_pages db)))"
      using a[of sector "n + 1"] h by auto
  next
    assume h: "1 \<le> n \<and> (simple_search_companies e sector n = [] \<or> fetch e sector n = None)"
    then have "simple_search_companies e sector n = []" using simple_search_companies_fetch_None by blast
    then show "(sector, n + 1) \<notin> set (simple_requests (scrape_companies_by_sector_run e sectors max_pages))"
      using b[of sector "n + 1"] h by auto
  qed (use a b in auto)
qed

theorem pagination_stops_witness:
  "fetch example_env ''finance'' 2 = None
   \<and> (''finance'', 3) \<notin> set (requests (snd (scrape_and_save example_env [''technology'', ''finance''] 2 empty_connection)))
   \<and> (''technology'', 2) \<in> set (requests (snd (scrape_and_save example_env [''technology'', ''finance''] 2 empty_connection)))
   \<and> (''finance'', 3) \<notin> set (simple_requests (scrape_companies_by_sector_run example_env [''technology'', ''finance''] 2))
   \<and> (''technology'', 2) \<in> set (simple_requests (scrape_companies_by_sector_run example_env [''technology'', ''finance''] 2))"
proof -
  have f: "fetch example_env ''finance'' 2 = None" by (simp add: example_fetch_def)
  have r: "(''technology'', 2) \<in> set (requests (snd (scrape_and_save example_env [''technology'', ''finance''] 2 empty_connection)))"
          "(''technology'', 2) \<in> set (simple_requests (scrape_companies_by_sector_run example_env [''technology'', ''finance''] 2))"
    by (simp_all add: example_run(2) example_simple_run(1))
  from pagination_stops[where n = 2 and e = example_env and sector = "''finance''"
        and sectors = "[''technology'', ''finance'']" and max_pages = 2 and db = empty_connection
        and page = 2] f
  have "(''finance'', 3) \<notin> set (requests (snd (scrape_and_save example_env [''technology'', ''finance''] 2 empty_connection)))"
       "(''finance'', 3) \<notin> set (simple_requests (scrape_companies_by_sector_run example_env [''technology'', ''finance''] 2))"
    by simp_all
  moreover from pagination_stops[where e = example_env and sector = "''technology''"
        and sectors = "[''technology'', ''finance'']" and max_pages = 2 and db = empty_connection
        and page = 2] r
  have "(1::int) \<le> 2 \<and> (2::int) \<le> 2" by blast
  ultimately show ?thesis using f r by simp
qed

text \<open>
  C2 as stated fails on \<^verbatim>\<open>scrape_and_save\<close>: in the example run the identifier 123,
  listed on two pages of \<^verbatim>\<open>technology\<close> and on one of \<^verbatim>\<open>finance\<close>, is handed to
  \<^verbatim>\<open>save_company_to_db\<close> three times.
\<close>

theorem scrape_and_save_repeats_upsert:
  "map company_number
     (upserts (snd (scrape_and_save example_env [''technology'', ''finance''] 2 empty_connection)))
     = [''123'', ''123'', ''789'', ''123'']
   \<and> \<not> distinct (map company_number
     (upserts (snd (scrape_and_save example_env [''technology'', ''finance''] 2 empty_connection))))"
  by (simp add: example_run(3))

text \<open>
  C2, as amended. \<^verbatim>\<open>scrape_companies_by_sector\<close> of \<^verbatim>\<open>simple_scraper.py\<close>, which
  keeps the set \<^verbatim>\<open>seen_companies\<close>, returns at most one candidate for an identifier,
  across pages and sectors, and none with an empty identifier. \<^verbatim>\<open>scrape_and_save\<close> of
  \<^verbatim>\<open>db_scraper_fixed.py\<close> keeps no such set: in a run that no exception ends, every
  candidate of every page requested is handed to \<^verbatim>\<open>save_company_to_db\<close>, in order,
  so that a repeated identifier reaches the upsert again and takes its conflict path.
\<close>

theorem dedup_in_memory_only:
  "distinct (map company_number (scrape_companies_by_sector e sectors max_pages))
   \<and> [] \<notin> set (map company_number (scrape_companies_by_sector e sectors max_pages))
   \<and> (fst (scrape_and_save e sectors max_pages db) = None \<longrightarrow>
        upserts (snd (scrape_and_save e sectors max_pages db))
          = concat (map (\<lambda>(s, p). map (\<lambda>c. c\<lparr>sector_keyword := Some s\<rparr>) (search_companies e s p))
                        (requests (snd (scrape_and_save e sectors max_pages db)))))"
proof (intro conjI impI)
  show "distinct (map company_number (scrape_companies_by_sector e sectors max_pages))"
    using scrape_companies_by_sector_inv[of e sectors max_pages]
    by (simp add: dedup_inv_def scrape_companies_by_sector_def)
  show "[] \<notin> set (map company_number (scrape_companies_by_sector e sectors max_pages))"
    using scrape_companies_by_sector_inv[of e sectors max_pages]
    by (simp add: dedup_inv_def scrape_companies_by_sector_def)
next
  assume "fst (scrape_and_save e sectors max_pages db) = None"
  from scrape_sectors_upserts[OF this[unfolded scrape_and_save_def]]
  show "upserts (snd (scrape_and_save e sectors max_pages db))
          = concat (map (\<lambda>(s, p). map (\<lambda>c. c\<lparr>sector_keyword := Some s\<rparr>) (search_companies e s p))
                        (requests (snd (scrape_and_save e sectors max_pages db))))"
    unfolding scrape_and_save_def by auto
qed

theorem dedup_in_memory_only_witness:
  "fst (scrape_and_save example_env [''technology'', ''finance''] 2 empty_connection) = None
   \<and> upserts (snd (scrape_and_save example_env [''technology'', ''finance''] 2 empty_connection))
       = [company_A\<lparr>sector_keyword := Some ''technology''\<rparr>,
          company_A\<lparr>sector_keyword := Some ''technology''\<rparr>,
          company_C\<lparr>sector_keyword := Some ''technology''\<rparr>,
          company_A\<lparr>sector_keyword := Some ''finance''\<rparr>]
   \<and> map company_number (scrape_companies_by_sector example_env [''technology'', ''finance''] 2)
       = [''123'', ''789'']"
proof -
  from dedup_in_memory_only[of example_env "[''technology'', ''finance'']" 2 empty_connection]
    example_run(1)
  have "upserts (snd (scrape_and_save example_env [''technology'', ''finance''] 2 empty_connection))
          = concat (map (\<lambda>(s, p). map (\<lambda>c. c\<lparr>sector_keyword := Some s\<rparr>) (search_companies example_env s p))
                        (requests (snd (scrape_and_save example_env [''technology'', ''finance''] 2 empty_connection))))"
    by blast
  then have "upserts (snd (scrape_and_save example_env [''technology'', ''finance''] 2 empty_connection))
       = [company_A\<lparr>sector_keyword := Some ''technology''\<rparr>,
          company_A\<lparr>sector_keyword := Some ''technology''\<rparr>,
          company_C\<lparr>sector_keyword := Some ''technology''\<rparr>,
          company_A\<lparr>sector_keyword := Some ''finance''\<rparr>]"
    by (simp add: example_run(2) example_search)
  then show ?thesis using example_run(1) example_simple_run(2) by simp
qed

text \<open>
  C7. A failure of one statement is confined to its candidate (\<open>save_page_continues\<close>,
  \<open>save_company_with_statement_fault\<close>, \<open>save_company_with_keeps_rows\<close> above). A lost
  connection is not: in the example run the connection is lost during the second call
  of \<^verbatim>\<open>save_company_to_db\<close>. The call raises instead of returning \<^verbatim>\<open>False\<close>, the
  exception leaves \<^verbatim>\<open>scrape_and_save\<close>, candidate C (789) of the same page is never
  handed to the upsert and the sector \<^verbatim>\<open>finance\<close> is never requested.
\<close>

theorem scrape_and_save_connection_lost:
  "save_company_to_db Connection_fault 1 (company_A\<lparr>sector_keyword := Some ''technology''\<rparr>) empty_connection
     = (Inl InterfaceError, empty_connection)
   \<and> fst (scrape_and_save example_env_connection_lost [''technology'', ''finance''] 2 empty_connection)
       = Some InterfaceError
   \<and> map company_number
       (upserts (snd (scrape_and_save example_env_connection_lost [''technology'', ''finance''] 2 empty_connection)))
       = [''123'', ''123'']
   \<and> requests (snd (scrape_and_save example_env_connection_lost [''technology'', ''finance''] 2 empty_connection))
       = [(''technology'', 1), (''technology'', 2)]"
  by (simp add: example_run_simps example_env_connection_lost_def company_A_def company_C_def)

subsection \<open>The entity type\<close>

lemma company_type_from_text_type:
  "company_type (company_type_from_text text d)
     = (case phrase_entity_type text of None \<Rightarrow> company_type d | Some t \<Rightarrow> Some t)"
  by (simp add: company_type_from_text_def phrase_entity_type_def)

lemma simple_parse_detail_type:
  "company_type (simple_parse_detail detail text d)
     = (case phrase_entity_type text of None \<Rightarrow> company_type d | Some t \<Rightarrow> Some t)"
  by (simp add: simple_parse_detail_def Let_def company_type_from_text_type split: option.splits)

lemma simple_parse_details_type:
  "company_type (simple_parse_details details d)
     = (case last_observed (map phrase_entity_type
              (filter (\<lambda>text. str_in ''Active'' text \<or> \<not> str_in ''Dissolved'' text)
                 (map (\<lambda>detail. strip (get_text detail)) details))) of
          None \<Rightarrow> company_type d
        | Some t \<Rightarrow> Some t)"
proof (induction details arbitrary: d)
  case Nil
  then show ?case by simp
next
  case (Cons x xs)
  let ?text = "strip (get_text x)"
  show ?case
  proof (cases "str_in ''Active'' ?text")
    case True
    then show ?thesis
      by (simp add: Let_def Cons.IH simple_parse_detail_type split: option.splits)
  next
    case False
    show ?thesis
    proof (cases "str_in ''Dissolved'' ?text")
      case True
      then show ?thesis using False by (simp add: Let_def Cons.IH split: option.splits)
    next
      case False
      then show ?thesis using \<open>\<not> str_in ''Active'' ?text\<close>
        by (simp add: Let_def Cons.IH simple_parse_detail_type split: option.splits)
    qed
  qed
qed

lemma simple_parse_company_result_type:
  assumes "simple_parse_company_result now el = Inr (Some c)"
  shows "company_type c = last_observed (map phrase_entity_type (scanned_texts el))"
proof (cases el)
  case (Text s)
  then show ?thesis using assms by (simp add: simple_parse_company_result_def)
next
  case (Tag n cs as ch)
  from assms Tag obtain d where "c = simple_parse_details (find_all ''p'' el) d" "company_type d = None"
    by (auto simp: simple_parse_company_result_def Let_def split: option.splits if_splits)
  then show ?thesis
    by (simp add: simple_parse_details_type scanned_texts_def split: option.splits)
qed

lemma company_type_from_name_type:
  "company_type (company_type_from_name name d)
     = (case name_entity_type name of None \<Rightarrow> company_type d | Some t \<Rightarrow> Some t)"
  by (simp add: company_type_from_name_def name_entity_type_def)

lemma parse_detail_type:
  "company_type (parse_detail sp name text d)
     = (case name_entity_type name of None \<Rightarrow> company_type d | Some t \<Rightarrow> Some t)"
  by (simp add: parse_detail_def Let_def company_type_from_name_type split: option.splits)

lemma parse_details_type:
  "parse_details sp name details d = Some c \<Longrightarrow>
   company_type c = (if details = [] then company_type d
                     else case name_entity_type name of None \<Rightarrow> company_type d | Some t \<Rightarrow> Some t)"
proof (induction details arbitrary: d)
  case Nil
  then show ?case by simp
next
  case (Cons x xs)
  let ?d = "parse_detail sp name (strip (get_text x)) d"
  from Cons.prems have "parse_details sp name xs ?d = Some c"
    by (simp add: Let_def split: if_splits)
  from Cons.IH[OF this] show ?case
    by (simp add: parse_detail_type split: option.splits if_splits)
qed

lemma parse_company_result_type:
  assumes "parse_company_result sp now el = Inr (Some c)"
  shows "company_type c = (if find_all ''p'' el = [] then None else name_entity_type (company_name c))"
proof (cases el)
  case (Text s)
  then show ?thesis using assms by (simp add: parse_company_result_def split: if_splits)
next
  case (Tag n cs as ch)
  from assms Tag obtain name d where pd: "parse_details sp name (find_all ''p'' el) d = Some c"
     and d: "company_type d = None" "company_name d = name" "company_number d \<noteq> []"
    by (auto simp: parse_company_result_def Let_def split: option.splits if_splits)
  from parse_details_keeps[OF pd d(3)] d(2) have "company_name c = name" by simp
  with parse_details_type[OF pd] d(1) show ?thesis by (simp split: option.splits)
qed

text \<open>
  C9, as amended. In \<^verbatim>\<open>simple_scraper.py\<close> the candidate's \<^verbatim>\<open>company_type\<close> comes
  from the paragraph texts by the phrase mapping: within one paragraph the first of
  \<^verbatim>\<open>Private limited Company\<close>, \<^verbatim>\<open>Public limited Company\<close>,
  \<^verbatim>\<open>Limited liability partnership\<close>, in this order, that occurs in it decides; among
  the paragraphs scanned the last one with a phrase wins; the key is left out when no
  phrase occurs. In \<^verbatim>\<open>db_scraper_fixed.py\<close> the type comes from the company name
  instead: it is left out when the element has no paragraph or the upper-cased name
  lacks \<^verbatim>\<open>LIMITED\<close>, and is else \<^verbatim>\<open>plc\<close>, \<^verbatim>\<open>llp\<close> or \<^verbatim>\<open>ltd\<close> as the name
  contains \<^verbatim>\<open>PLC\<close>, \<^verbatim>\<open>LLP\<close> or neither.
\<close>

theorem entity_type_derivation:
  "(simple_parse_company_result now el = Inr (Some c)
      \<longrightarrow> company_type c = last_observed (map phrase_entity_type (scanned_texts el)))
   \<and> (parse_company_result sp now el = Inr (Some c')
      \<longrightarrow> company_type c' = (if find_all ''p'' el = [] then None else name_entity_type (company_name c')))"
  using simple_parse_company_result_type parse_company_result_type by blast

theorem entity_type_derivation_witness:
  "simple_parse_company_result 0 example_two_phrases_result = Inr (Some example_company_no_address)
   \<and> parse_company_result no_strptime 0 example_plc_result = Inr (Some example_company_no_address)
   \<and> last_observed (map phrase_entity_type (scanned_texts example_two_phrases_result)) = Some ''ltd''
   \<and> name_entity_type (company_name example_company_no_address) = Some ''ltd''
   \<and> company_type example_company_no_address = Some ''ltd''"
proof -
  have a: "simple_parse_company_result 0 example_two_phrases_result = Inr (Some example_company_no_address)"
    by code_simp
  have b: "parse_company_result no_strptime 0 example_plc_result = Inr (Some example_company_no_address)"
    by code_simp
  have c: "find_all ''p'' example_plc_result \<noteq> []" by code_simp
  have d: "company_type example_company_no_address = Some ''ltd''"
    by (simp add: example_company_no_address_def example_company_def)
  from entity_type_derivation[of 0 example_two_phrases_result example_company_no_address] a
  have "company_type example_company_no_address
          = last_observed (map phrase_entity_type (scanned_texts example_two_phrases_result))"
    by blast
  moreover
  from entity_type_derivation[of _ example_plc_result _ no_strptime example_company_no_address] b c
  have "company_type example_company_no_address
          = name_entity_type (company_name example_company_no_address)"
    by simp
  ultimately show ?thesis using a b d by simp
qed

text \<open>
  C9 as stated fails twice. The parser of \<^verbatim>\<open>db_scraper_fixed.py\<close> gives the type
  \<^verbatim>\<open>ltd\<close> to a result named ACME WIDGETS LIMITED whose only paragraph reads
  \<^verbatim>\<open>Public limited Company\<close>. The parser of \<^verbatim>\<open>simple_scraper.py\<close> gives \<^verbatim>\<open>ltd\<close> to a
  paragraph in which \<^verbatim>\<open>Private limited Company\<close> comes first and
  \<^verbatim>\<open>Public limited Company\<close> last.
\<close>

theorem entity_type_not_last_phrase:
  "parse_company_result no_strptime 0 example_plc_result = Inr (Some example_company_no_address)
   \<and> simple_parse_company_result 0 example_two_phrases_result = Inr (Some example_company_no_address)
   \<and> company_type example_company_no_address = Some ''ltd''
   \<and> phrase_entity_type ''Public limited Company'' = Some ''plc''
   \<and> phrase_entity_type ''converted to Public limited Company'' = Some ''plc''"
proof -
  have a: "simple_parse_company_result 0 example_two_phrases_result = Inr (Some example_company_no_address)"
    by code_simp
  have b: "parse_company_result no_strptime 0 example_plc_result = Inr (Some example_company_no_address)"
    by code_simp
  have d: "company_type example_company_no_address = Some ''ltd''"
    by (simp add: example_company_no_address_def example_company_def)
  have e: "phrase_entity_type ''Public limited Company'' = Some ''plc''"
          "phrase_entity_type ''converted to Public limited Company'' = Some ''plc''"
    by code_simp+
  from a b d e show ?thesis by simp
qed


end
